theory Spec2Isabelle
  imports Main "HOL-Library.Log_Nat"
begin

section \<open>JavaScript numbers\<close>

text \<open>
  A JavaScript \<^verbatim>\<open>number\<close> is an IEEE 754 binary64 value. A finite one is a rational,
  and the model works with that rational: comparison is the exact comparison, and each
  arithmetic operation is the exact operation followed by rounding to the nearest
  binary64 value, ties to the even significand, as the language defines it. Subnormal
  results are covered by the lower bound on the exponent. A result too large for
  binary64 is an infinity: \<open>fl\<close> below is the rounding of a result that stays in range,
  \<open>overflows\<close> tells when it does not, and \<open>round64\<close> is the rounding with the
  infinities. \<^verbatim>\<open>NaN\<close> is not a value of the model, and a division by zero is outside
  it.
\<close>

type_synonym number = rat

definition pow2 :: "int \<Rightarrow> rat" where
  "pow2 k = (if 0 \<le> k then 2 ^ nat k else 1 / 2 ^ nat (- k))"

text \<open>The integer nearest to \<open>x\<close>, the even one of the two when \<open>x\<close> is half way.\<close>

definition roundTiesToEven :: "rat \<Rightarrow> int" where
  "roundTiesToEven x =
     (let f = \<lfloor>x\<rfloor>; r = x - of_int f
      in if r < 1 / 2 then f else if 1 / 2 < r then f + 1 else if even f then f else f + 1)"

text \<open>For \<open>0 < x\<close>, the exponent \<open>e\<close> of the binade of \<open>x\<close>: \<open>2 ^ e \<le> x < 2 ^ (e + 1)\<close>.\<close>

definition binade :: "rat \<Rightarrow> int" where
  "binade x = (if 1 \<le> x then bitlen \<lfloor>x\<rfloor> - 1 else - bitlen (\<lceil>1 / x\<rceil> - 1))"

text \<open>
  Rounding to binary64: 53 significant bits, so the spacing of the values around \<open>x\<close> is
  \<open>2 ^ (e - 52)\<close>, with \<open>e\<close> no smaller than \<open>- 1022\<close>.
\<close>

definition fl :: "rat \<Rightarrow> number" where
  "fl x = (if x = 0 then 0
           else let e = max (binade \<bar>x\<bar>) (- 1022); q = pow2 (e - 52)
                in of_int (roundTiesToEven (x / q)) * q)"




text \<open>A decimal literal of the source denotes the binary64 value nearest to it.\<close>

definition lit :: "rat \<Rightarrow> number" where
  "lit x = fl x"

text \<open>
  Division and multiplication where the result stays in range: a division by 1000, and
  the operations on the operands of the examples.
\<close>

definition js_div :: "number \<Rightarrow> number \<Rightarrow> number" where
  "js_div a b = fl (a / b)"







text \<open>\<^verbatim>\<open>x || d\<close> on a possibly absent number: \<open>0\<close> and \<^verbatim>\<open>undefined\<close> are falsy.\<close>

definition num_or :: "'a::zero option \<Rightarrow> 'a \<Rightarrow> 'a" where
  "num_or x d = (case x of None \<Rightarrow> d | Some v \<Rightarrow> if v = 0 then d else v)"

text \<open>\<^verbatim>\<open>s || d\<close> on a possibly absent string: the empty string and \<^verbatim>\<open>undefined\<close> are falsy.\<close>

definition str_or :: "string option \<Rightarrow> string \<Rightarrow> string" where
  "str_or x d = (case x of None \<Rightarrow> d | Some v \<Rightarrow> if v = [] then d else v)"

text \<open>\<^verbatim>\<open>xs || d\<close> on a possibly absent array: every array is truthy, the empty one too.\<close>

definition arr_or :: "'a list option \<Rightarrow> 'a list \<Rightarrow> 'a list" where
  "arr_or x d = (case x of None \<Rightarrow> d | Some v \<Rightarrow> v)"


section \<open>Data types of the application (src/types/index.ts)\<close>

text \<open>
  Strings are lists of code units. Every character of the source's string literals lies
  in Latin-1, so one \<^typ>\<open>char\<close> is one code unit; the accented letters are written by
  their code.
\<close>

record PriceField =
  price_value :: number
  price_currency :: string
  price_confidence :: number

record WeightField =
  weight_value :: number
  weight_unit :: string
  weight_confidence :: number

record ProductField =
  product_name :: string
  product_brand :: string
  product_confidence :: number

text \<open>
  The extracted data arrives as parsed JSON; a field that the response lacks is
  \<open>None\<close> (the checks \<^verbatim>\<open>!data.price\<close> of the source).
\<close>

record ExtractedData =
  price :: "PriceField option"
  weight :: "WeightField option"
  product :: "ProductField option"

record NormalizedWeight =
  nw_value :: number
  nw_unit :: string
  originalValue :: number
  originalUnit :: string


datatype ErrorCode =
    INVALID_IMAGE_FORMAT
  | IMAGE_TOO_LARGE
  | NO_PRICE_DETECTED
  | NO_WEIGHT_DETECTED
  | NO_PRODUCT_DETECTED
  | API_RATE_LIMIT
  | API_ERROR
  | NETWORK_ERROR

record AppError =
  code :: ErrorCode
  message :: string
  userMessage :: string
  suggestions :: "string list"
  recoverable :: bool

text \<open>
  A thrown value is an \<open>AppError\<close> object or a JavaScript \<^verbatim>\<open>Error\<close> with its message.
  Only the first has a \<^verbatim>\<open>code\<close>.
\<close>

datatype thrown = AppErr AppError | JsError string

definition code_of :: "thrown \<Rightarrow> ErrorCode option" where
  "code_of t = (case t of AppErr e \<Rightarrow> Some (code e) | JsError _ \<Rightarrow> None)"


section \<open>Error classification (lib/errorHandling, in src/app/layout.tsx)\<close>

record ErrorRecoveryStrategy =
  strategy_maxRetries :: int
  strategy_backoffMultiplier :: number
  strategy_retryableErrors :: "ErrorCode list"

definition API_RETRY_STRATEGY :: ErrorRecoveryStrategy where
  "API_RETRY_STRATEGY =
     \<lparr>strategy_maxRetries = 3,
      strategy_backoffMultiplier = lit (3 / 2),
      strategy_retryableErrors = [NETWORK_ERROR, API_RATE_LIMIT, API_ERROR]\<rparr>"

datatype ErrorCategory = USER_ERROR | SYSTEM_ERROR | CRITICAL_ERROR

fun ERROR_CATEGORIES :: "ErrorCode \<Rightarrow> ErrorCategory" where
  "ERROR_CATEGORIES INVALID_IMAGE_FORMAT = USER_ERROR"
| "ERROR_CATEGORIES IMAGE_TOO_LARGE = USER_ERROR"
| "ERROR_CATEGORIES NO_PRICE_DETECTED = USER_ERROR"
| "ERROR_CATEGORIES NO_WEIGHT_DETECTED = USER_ERROR"
| "ERROR_CATEGORIES NO_PRODUCT_DETECTED = USER_ERROR"
| "ERROR_CATEGORIES API_RATE_LIMIT = SYSTEM_ERROR"
| "ERROR_CATEGORIES NETWORK_ERROR = SYSTEM_ERROR"
| "ERROR_CATEGORIES API_ERROR = CRITICAL_ERROR"

record ErrorInfo =
  info_title :: string
  info_message :: string
  info_suggestions :: "string list"

definition a' :: string where "a' = [CHR 0xE1]"
definition e' :: string where "e' = [CHR 0xE9]"
definition o' :: string where "o' = [CHR 0xF3]"
definition u' :: string where "u' = [CHR 0xFA]"
definition n' :: string where "n' = [CHR 0xF1]"
definition dq :: string where "dq = [CHR 0x22]"

fun ERROR_MESSAGES :: "ErrorCode \<Rightarrow> ErrorInfo" where
  "ERROR_MESSAGES INVALID_IMAGE_FORMAT =
     \<lparr>info_title = ''Formato no v'' @ a' @ ''lido'',
      info_message = ''El formato de imagen no es compatible. Usa JPEG, PNG o WebP.'',
      info_suggestions =
        [''Convierte la imagen a JPEG, PNG o WebP'',
         ''Toma una nueva foto con la c'' @ a' @ ''mara'',
         ''Verifica que el archivo no est'' @ e' @ '' da'' @ n' @ ''ado'']\<rparr>"
| "ERROR_MESSAGES IMAGE_TOO_LARGE =
     \<lparr>info_title = ''Imagen demasiado grande'',
      info_message =
        ''La imagen es demasiado grande. El tama'' @ n' @ ''o m'' @ a' @ ''ximo es 10MB.'',
      info_suggestions =
        [''Reduce la resoluci'' @ o' @ ''n de la imagen'',
         ''Comprime la imagen antes de subirla'',
         ''Toma una nueva foto con menor calidad'']\<rparr>"
| "ERROR_MESSAGES NO_PRICE_DETECTED =
     \<lparr>info_title = ''Precio no encontrado'',
      info_message =
        ''No pudimos encontrar el precio en la imagen. Aseg'' @ u'
          @ ''rate de que est'' @ e' @ '' visible y enfocado.'',
      info_suggestions =
        [''Toma la foto m'' @ a' @ ''s cerca del precio'',
         ''Aseg'' @ u' @ ''rate de que haya buena iluminaci'' @ o' @ ''n'',
         ''Verifica que el precio est'' @ e' @ '' claramente visible'',
         ''Evita reflejos o sombras sobre el precio'']\<rparr>"
| "ERROR_MESSAGES NO_WEIGHT_DETECTED =
     \<lparr>info_title = ''Peso no encontrado'',
      info_message =
        ''No pudimos identificar el peso o volumen. Verifica que esta informaci'' @ o'
          @ ''n est'' @ e' @ '' clara en la etiqueta.'',
      info_suggestions =
        [''Aseg'' @ u' @ ''rate de que el peso/volumen est'' @ e' @ '' visible'',
         ''Toma la foto m'' @ a' @ ''s cerca de la informaci'' @ o' @ ''n nutricional'',
         ''Verifica que la etiqueta est'' @ e' @ '' completa en la imagen'',
         ''Busca informaci'' @ o' @ ''n como '' @ dq @ ''500g'' @ dq @ '', '' @ dq @ ''1L''
           @ dq @ '', etc.'']\<rparr>"
| "ERROR_MESSAGES NO_PRODUCT_DETECTED =
     \<lparr>info_title = ''Producto no identificado'',
      info_message =
        ''No pudimos identificar el nombre del producto. Aseg'' @ u'
          @ ''rate de que est'' @ e' @ '' visible en la etiqueta.'',
      info_suggestions =
        [''Toma la foto incluyendo el nombre del producto'',
         ''Aseg'' @ u' @ ''rate de que el texto est'' @ e' @ '' enfocado'',
         ''Verifica que la etiqueta est'' @ e' @ '' completa'',
         ''Evita cortar el nombre del producto en la foto'']\<rparr>"
| "ERROR_MESSAGES API_RATE_LIMIT =
     \<lparr>info_title = ''Demasiadas solicitudes'',
      info_message =
        ''Has realizado demasiadas solicitudes. Espera un momento e intenta de nuevo.'',
      info_suggestions =
        [''Espera 30 segundos antes de intentar de nuevo'',
         ''Evita subir m'' @ u' @ ''ltiples im'' @ a' @ ''genes muy r'' @ a' @ ''pido'',
         ''Intenta de nuevo en unos minutos'']\<rparr>"
| "ERROR_MESSAGES NETWORK_ERROR =
     \<lparr>info_title = ''Error de conexi'' @ o' @ ''n'',
      info_message =
        ''Parece que hay un problema de conexi'' @ o'
          @ ''n. Verifica tu internet e intenta de nuevo.'',
      info_suggestions =
        [''Verifica tu conexi'' @ o' @ ''n a internet'',
         ''Intenta de nuevo en unos momentos'',
         ''Cambia a una red m'' @ a' @ ''s estable si es posible'',
         ''Recarga la p'' @ a' @ ''gina si el problema persiste'']\<rparr>"
| "ERROR_MESSAGES API_ERROR =
     \<lparr>info_title = ''Error del servidor'',
      info_message =
        ''Ha ocurrido un error en nuestros servidores. Intenta de nuevo en unos momentos.'',
      info_suggestions =
        [''Intenta de nuevo en unos minutos'',
         ''Si el problema persiste, contacta soporte'',
         ''Verifica que la imagen sea v'' @ a' @ ''lida'']\<rparr>"

text \<open>
  \<^verbatim>\<open>createAppError(code, originalMessage?, customSuggestions?)\<close>. An absent argument is
  \<open>None\<close>; an empty message is falsy and gives way to the table's, an empty suggestion
  list is kept.
\<close>

definition createAppError ::
  "ErrorCode \<Rightarrow> string option \<Rightarrow> string list option \<Rightarrow> AppError" where
  "createAppError c originalMessage customSuggestions =
     (let errorInfo = ERROR_MESSAGES c; category = ERROR_CATEGORIES c
      in \<lparr>code = c,
          message = str_or originalMessage (info_message errorInfo),
          userMessage = info_message errorInfo,
          suggestions = arr_or customSuggestions (info_suggestions errorInfo),
          recoverable = (category \<noteq> CRITICAL_ERROR)\<rparr>)"

definition isRetryableError :: "AppError \<Rightarrow> ErrorRecoveryStrategy \<Rightarrow> bool" where
  "isRetryableError error strategy = (code error \<in> set (strategy_retryableErrors strategy))"

definition getErrorCategory :: "ErrorCode \<Rightarrow> ErrorCategory" where
  "getErrorCategory c = ERROR_CATEGORIES c"

definition isRecoverableError :: "AppError \<Rightarrow> bool" where
  "isRecoverableError error = recoverable error"


section \<open>Retry with exponential backoff (lib/retryUtils, in src/app/layout.tsx)\<close>

text \<open>
  An observer \<^verbatim>\<open>onRetry\<close> is a callback without a result; the model names it and
  records each of its calls in the trace of the run. A key that an options object does
  not have is \<open>None\<close>; \<open>maxRetries\<close> is an integer.
\<close>

type_synonym observer = string

record RetryOptions =
  maxRetries :: "int option"
  baseDelay :: "number option"
  maxDelay :: "number option"
  backoffMultiplier :: "number option"
  retryableErrors :: "ErrorCode list option"
  onRetry :: "observer option"

definition DEFAULT_RETRY_OPTIONS :: RetryOptions where
  "DEFAULT_RETRY_OPTIONS =
     \<lparr>maxRetries = Some (strategy_maxRetries API_RETRY_STRATEGY),
      baseDelay = Some 1000,
      maxDelay = Some 30000,
      backoffMultiplier = Some (strategy_backoffMultiplier API_RETRY_STRATEGY),
      retryableErrors = Some (strategy_retryableErrors API_RETRY_STRATEGY),
      onRetry = None\<rparr>"

text \<open>The empty options object \<^verbatim>\<open>{}\<close>.\<close>

definition no_options :: RetryOptions where
  "no_options =
     \<lparr>maxRetries = None, baseDelay = None, maxDelay = None, backoffMultiplier = None,
      retryableErrors = None, onRetry = None\<rparr>"

text \<open>
  The object spread \<^verbatim>\<open>{ ...base, ...over }\<close>: a key that \<open>over\<close> has wins, any other
  key keeps the value of \<open>base\<close>.
\<close>

definition override :: "'a option \<Rightarrow> 'a option \<Rightarrow> 'a option" where
  "override b v = (case v of None \<Rightarrow> b | Some x \<Rightarrow> Some x)"

definition spread :: "RetryOptions \<Rightarrow> RetryOptions \<Rightarrow> RetryOptions" where
  "spread base over =
     \<lparr>maxRetries = override (maxRetries base) (maxRetries over),
      baseDelay = override (baseDelay base) (baseDelay over),
      maxDelay = override (maxDelay base) (maxDelay over),
      backoffMultiplier = override (backoffMultiplier base) (backoffMultiplier over),
      retryableErrors = override (retryableErrors base) (retryableErrors over),
      onRetry = override (onRetry base) (onRetry over)\<rparr>"

text \<open>\<^verbatim>\<open>shouldRetryError\<close> reads only \<^verbatim>\<open>error.code\<close>, which is its first argument here.\<close>

definition shouldRetryError :: "ErrorCode option \<Rightarrow> ErrorCode list \<Rightarrow> bool" where
  "shouldRetryError error_code retryable =
     (case error_code of None \<Rightarrow> False | Some c \<Rightarrow> c \<in> set retryable)"

text \<open>
  What a run does, in order: the invocations of the operation with the number of the
  attempt, the calls of the observer, and the suspensions, each with the number of the
  attempt it follows. How long a suspension lasts is not part of the model: it is the
  backoff delay of that attempt (\<^verbatim>\<open>calculateBackoffDelay\<close>, which leaves the power to
  \<^verbatim>\<open>Math.pow\<close> of the platform) plus a random jitter (\<^verbatim>\<open>addJitter\<close>), and it changes
  neither the outcome nor the order of the events.
\<close>

datatype event =
    Invoked int
  | Observed observer int thrown
  | Slept int

text \<open>
  The operation is given by the outcome of each of its invocations: \<open>operation k\<close> is
  what the invocation of attempt \<open>k\<close> settles with, \<open>Inl\<close> for a thrown value.
\<close>

type_synonym 'a operation = "int \<Rightarrow> thrown + 'a"

text \<open>
  The loop of \<^verbatim>\<open>retryWithBackoff\<close>, from attempt \<open>attempt\<close> on, with the variable
  \<^verbatim>\<open>lastError\<close>. It returns the outcome and the trace.
\<close>

function retry_loop ::
  "RetryOptions \<Rightarrow> 'a operation \<Rightarrow> int \<Rightarrow> thrown option \<Rightarrow> (thrown + 'a) \<times> event list" where
  "retry_loop opts operation attempt lastError =
     (if attempt \<le> num_or (maxRetries opts) 3 then
        (case operation attempt of
           Inr v \<Rightarrow> (Inr v, [Invoked attempt])
         | Inl appError \<Rightarrow>
             if \<not> shouldRetryError (code_of appError) (arr_or (retryableErrors opts) [])
             then (Inl appError, [Invoked attempt])
             else if Some attempt = maxRetries opts
             then (Inl appError, [Invoked attempt])
             else
               (let this = Invoked attempt
                           # (case onRetry opts of
                                None \<Rightarrow> []
                              | Some f \<Rightarrow> [Observed f attempt appError])
                           @ [Slept attempt];
                    rest = retry_loop opts operation (attempt + 1) (Some appError)
                in (fst rest, this @ snd rest)))
      else
        (Inl (case lastError of
                Some e \<Rightarrow> e
              | None \<Rightarrow> JsError ''Retry failed with unknown error''), []))"
  by pat_completeness auto
termination
  by (relation "measure (\<lambda>(opts, operation, attempt, lastError).
        nat (num_or (maxRetries opts) 3 + 1 - attempt))") auto

declare retry_loop.simps [simp del]

definition retryWithBackoff ::
  "'a operation \<Rightarrow> RetryOptions \<Rightarrow> (thrown + 'a) \<times> event list" where
  "retryWithBackoff operation options =
     retry_loop (spread DEFAULT_RETRY_OPTIONS options) operation 1 None"

text \<open>
  The constant \<^verbatim>\<open>apiRetryOptions\<close> of \<^verbatim>\<open>retryApiCall\<close>: the defaults, then the list of
  codes and the observer of \<^verbatim>\<open>retryApiCall\<close>, then the keys of the caller.
\<close>

definition apiRetryOptions :: "RetryOptions \<Rightarrow> RetryOptions" where
  "apiRetryOptions options =
     spread
       (spread DEFAULT_RETRY_OPTIONS
          (no_options
             \<lparr>retryableErrors := Some [NETWORK_ERROR, API_RATE_LIMIT, API_ERROR],
              onRetry := Some ''retryApiCall: console.warn''\<rparr>))
       options"

definition retryApiCall ::
  "'a operation \<Rightarrow> RetryOptions \<Rightarrow> (thrown + 'a) \<times> event list" where
  "retryApiCall apiCall options = retryWithBackoff apiCall (apiRetryOptions options)"

text \<open>
  The body of the response of \<^verbatim>\<open>/api/analyze\<close>: the extracted data, or an error with
  its code, message and optional suggestions.
\<close>

record ApiError =
  api_code :: ErrorCode
  api_message :: string
  api_suggestions :: "string list option"

datatype AnalyzeResponse = Success ExtractedData | Failure ApiError

definition analysisOptions :: "RetryOptions \<Rightarrow> RetryOptions" where
  "analysisOptions options =
     spread
       (spread DEFAULT_RETRY_OPTIONS
          (no_options
             \<lparr>maxRetries := Some 3,
              baseDelay := Some 2000,
              onRetry := Some ''retryImageAnalysis: console.warn''\<rparr>))
       options"

text \<open>
  The operation that \<^verbatim>\<open>retryImageAnalysis\<close> retries: it posts the image and turns a
  response without success into a thrown \<open>AppError\<close>.
\<close>

definition analysisError :: "RetryOptions \<Rightarrow> ApiError \<Rightarrow> AppError" where
  "analysisError options err =
     \<lparr>code = api_code err,
      message = api_message err,
      userMessage = api_message err,
      suggestions = arr_or (api_suggestions err) [],
      recoverable =
        shouldRetryError (Some (api_code err))
          (arr_or (retryableErrors (analysisOptions options)) [])\<rparr>"

text \<open>
  \<open>fetched\<close> is what the request gave: the parsed body, or the \<^verbatim>\<open>Error\<close> with which
  \<^verbatim>\<open>fetch\<close> or the parsing of the body failed.
\<close>

definition analysisCall ::
  "RetryOptions \<Rightarrow> string + AnalyzeResponse \<Rightarrow> thrown + ExtractedData" where
  "analysisCall options fetched =
     (case fetched of
        Inl failure \<Rightarrow> Inl (JsError failure)
      | Inr (Failure err) \<Rightarrow> Inl (AppErr (analysisError options err))
      | Inr (Success d) \<Rightarrow> Inr d)"

text \<open>
  \<open>responses k\<close> is what the request of attempt \<open>k\<close> gives. The data of a successful
  response stands for the response, which is what \<^verbatim>\<open>retryImageAnalysis\<close> returns.
\<close>

definition retryImageAnalysis ::
  "(int \<Rightarrow> string + AnalyzeResponse) \<Rightarrow> RetryOptions
     \<Rightarrow> (thrown + ExtractedData) \<times> event list" where
  "retryImageAnalysis responses options =
     retryApiCall (\<lambda>k. analysisCall options (responses k)) (analysisOptions options)"


section \<open>Circuit breaker (lib/retryUtils, in src/app/layout.tsx)\<close>

datatype CBState = CLOSED | OPEN | HALF_OPEN

record CircuitBreaker =
  failures :: nat
  lastFailureTime :: int
  state :: CBState
  failureThreshold :: int
  recoveryTimeout :: int

definition new_CircuitBreaker :: "int \<Rightarrow> int \<Rightarrow> CircuitBreaker" where
  "new_CircuitBreaker threshold timeout =
     \<lparr>failures = 0, lastFailureTime = 0, state = CLOSED,
      failureThreshold = threshold, recoveryTimeout = timeout\<rparr>"

definition onSuccess :: "CircuitBreaker \<Rightarrow> CircuitBreaker" where
  "onSuccess b = b\<lparr>failures := 0, state := CLOSED\<rparr>"

text \<open>\<open>now\<close> is the reading of \<^verbatim>\<open>Date.now()\<close>.\<close>

definition onFailure :: "CircuitBreaker \<Rightarrow> int \<Rightarrow> CircuitBreaker" where
  "onFailure b now =
     (let b1 = b\<lparr>failures := failures b + 1, lastFailureTime := now\<rparr>
      in if failureThreshold b1 \<le> int (failures b1) then b1\<lparr>state := OPEN\<rparr> else b1)"

text \<open>
  The first statement of \<^verbatim>\<open>execute\<close>: an open breaker either moves to \<open>HALF_OPEN\<close> or
  throws.
\<close>

definition admit :: "CircuitBreaker \<Rightarrow> int \<Rightarrow> thrown + CircuitBreaker" where
  "admit b now =
     (if state b = OPEN then
        (if recoveryTimeout b < now - lastFailureTime b
         then Inr (b\<lparr>state := HALF_OPEN\<rparr>)
         else Inl (JsError ''Circuit breaker is OPEN''))
      else Inr b)"

text \<open>
  One call of \<^verbatim>\<open>execute\<close> during which no other call acts on the breaker: nothing
  happens to the breaker between the moment the operation is invoked and the moment it
  settles. \<open>now\<close> is the clock when the call starts, \<open>operation\<close> is what the wrapped
  operation settles with if it is invoked, \<open>later\<close> is the clock when it has failed.
  Beside the breaker and the outcome, the result tells whether the operation was invoked:
  \<open>invoked_in = Some s\<close> when it was, with \<open>s\<close> the state of the breaker at that moment.
  Calls that overlap are the subject of \<open>turn\<close> below.
\<close>

record 'a execution =
  breaker :: CircuitBreaker
  outcome :: "thrown + 'a"
  invoked_in :: "CBState option"

definition execute :: "CircuitBreaker \<Rightarrow> int \<Rightarrow> thrown + 'a \<Rightarrow> int \<Rightarrow> 'a execution" where
  "execute b now operation later =
     (case admit b now of
        Inl err \<Rightarrow> \<lparr>breaker = b, outcome = Inl err, invoked_in = None\<rparr>
      | Inr b1 \<Rightarrow>
          (case operation of
             Inr result \<Rightarrow>
               \<lparr>breaker = onSuccess b1, outcome = Inr result, invoked_in = Some (state b1)\<rparr>
           | Inl error \<Rightarrow>
               \<lparr>breaker = onFailure b1 later, outcome = Inl error,
                invoked_in = Some (state b1)\<rparr>))"

definition apiCircuitBreaker :: CircuitBreaker where
  "apiCircuitBreaker = new_CircuitBreaker 5 60000"

text \<open>
  \<^verbatim>\<open>resilientApiCall\<close> on the breaker \<open>b\<close> (the current value of the shared
  \<^verbatim>\<open>apiCircuitBreaker\<close>). The trace of the retried operation is part of the result; it is
  empty when the breaker did not let the call through.
\<close>

definition resilientApiCall ::
  "CircuitBreaker \<Rightarrow> int \<Rightarrow> 'a operation \<Rightarrow> RetryOptions \<Rightarrow> int \<Rightarrow> 'a execution \<times> event list" where
  "resilientApiCall b now operation options later =
     (let r = retryApiCall operation options;
          x = execute b now (fst r) later
      in (x, if invoked_in x = None then [] else snd r))"

text \<open>A sequence of calls of \<^verbatim>\<open>execute\<close> on one breaker, each with its clocks and outcome.\<close>

fun executes :: "CircuitBreaker \<Rightarrow> (int \<times> (thrown + 'a) \<times> int) list \<Rightarrow> CircuitBreaker" where
  "executes b [] = b"
| "executes b ((now, operation, later) # calls) =
     executes (breaker (execute b now operation later)) calls"

text \<open>
  Calls of \<^verbatim>\<open>execute\<close> that overlap. \<^verbatim>\<open>execute\<close> is asynchronous and the breaker is
  shared, so a call takes two turns on the breaker. In the first, \<open>Enter c now\<close>, the
  call \<open>c\<close> passes the test of the state at the clock \<open>now\<close>; it is then either rejected,
  which ends it, or it invokes the operation and waits. In the second, once the operation
  has settled, it runs \<^verbatim>\<open>onSuccess\<close> (\<open>Resolve c\<close>) or \<^verbatim>\<open>onFailure\<close> at the clock \<open>later\<close>
  (\<open>Reject c later\<close>). Each turn runs to its end; between the two turns of a call, any
  other call may take its turns. Beside the breaker the state has the calls that wait for
  their operation. A turn that no run has (a call entering twice, a call settling that
  does not wait) is \<open>None\<close>.
\<close>

datatype step = Enter nat int | Resolve nat | Reject nat int

fun turn :: "CircuitBreaker \<times> nat list \<Rightarrow> step \<Rightarrow> (CircuitBreaker \<times> nat list) option" where
  "turn (b, waiting) (Enter c now) =
     (if c \<in> set waiting then None
      else (case admit b now of
              Inl err \<Rightarrow> Some (b, waiting)
            | Inr b1 \<Rightarrow> Some (b1, c # waiting)))"
| "turn (b, waiting) (Resolve c) =
     (if c \<in> set waiting then Some (onSuccess b, removeAll c waiting) else None)"
| "turn (b, waiting) (Reject c later) =
     (if c \<in> set waiting then Some (onFailure b later, removeAll c waiting) else None)"

fun turns ::
  "CircuitBreaker \<times> nat list \<Rightarrow> step list \<Rightarrow> (CircuitBreaker \<times> nat list) option" where
  "turns s [] = Some s"
| "turns s (x # xs) = (case turn s x of None \<Rightarrow> None | Some s' \<Rightarrow> turns s' xs)"


section \<open>Weight normalisation (lib/WeightNormalizer.ts)\<close>

datatype normalizer_error =
    UnsupportedUnit string
  | InvalidWeightValue number
  | CannotConvert string string

definition isValidUnit :: "string \<Rightarrow> bool" where
  "isValidUnit u = (u \<in> set [''g'', ''kg'', ''ml'', ''l''])"

definition normalize :: "WeightField \<Rightarrow> normalizer_error + NormalizedWeight" where
  "normalize w =
     (let v = weight_value w; u = weight_unit w
      in if \<not> isValidUnit u then Inl (UnsupportedUnit u)
         else if v \<le> 0 then Inl (InvalidWeightValue v)
         else if u = ''g'' then
           Inr \<lparr>nw_value = js_div v 1000, nw_unit = ''kg'', originalValue = v, originalUnit = u\<rparr>
         else if u = ''kg'' then
           Inr \<lparr>nw_value = v, nw_unit = ''kg'', originalValue = v, originalUnit = u\<rparr>
         else if u = ''ml'' then
           Inr \<lparr>nw_value = js_div v 1000, nw_unit = ''l'', originalValue = v, originalUnit = u\<rparr>
         else if u = ''l'' then
           Inr \<lparr>nw_value = v, nw_unit = ''l'', originalValue = v, originalUnit = u\<rparr>
         else Inl (UnsupportedUnit u))"

text \<open>
  \<^verbatim>\<open>getConversionFactor\<close> reads its table, an object literal, by property access. A
  property access \<^verbatim>\<open>obj[key]\<close> yields the object's own property of that name if there is
  one, otherwise the member of that name that the object inherits from
  \<^verbatim>\<open>Object.prototype\<close> if there is one, otherwise \<^verbatim>\<open>undefined\<close>. The names below are
  the properties of \<^verbatim>\<open>Object.prototype\<close> in the language standard.
\<close>

definition Object_prototype :: "string list" where
  "Object_prototype =
     [''constructor'', ''hasOwnProperty'', ''isPrototypeOf'', ''propertyIsEnumerable'',
      ''toLocaleString'', ''toString'', ''valueOf'', ''__proto__'', ''__defineGetter__'',
      ''__defineSetter__'', ''__lookupGetter__'', ''__lookupSetter__'']"

text \<open>
  The values a property access on the table can yield: a number, \<^verbatim>\<open>undefined\<close>, or the
  inherited member of the given name (a function, or for \<^verbatim>\<open>__proto__\<close> the prototype
  object). An inherited member is truthy; a number is truthy unless it is zero.
\<close>

datatype jsval = Num number | Undefined | Inherited string

definition truthy :: "jsval \<Rightarrow> bool" where
  "truthy v = (case v of Num n \<Rightarrow> n \<noteq> 0 | Undefined \<Rightarrow> False | Inherited _ \<Rightarrow> True)"

definition conversions :: "(string \<times> (string \<times> number) list) list" where
  "conversions =
     [(''g'', [(''kg'', js_div 1 1000), (''g'', 1)]),
      (''kg'', [(''kg'', 1), (''g'', 1000)]),
      (''ml'', [(''l'', js_div 1 1000), (''ml'', 1)]),
      (''l'', [(''l'', 1), (''ml'', 1000)])]"

text \<open>\<^verbatim>\<open>row[key]\<close> on a row of the table.\<close>

definition row_get :: "(string \<times> number) list \<Rightarrow> string \<Rightarrow> jsval" where
  "row_get row key =
     (case map_of row key of
        Some n \<Rightarrow> Num n
      | None \<Rightarrow> if key \<in> set Object_prototype then Inherited key else Undefined)"

text \<open>
  Where \<^verbatim>\<open>fromUnit\<close> itself names an inherited member, the second access reads a
  property of that built-in object; \<open>builtin m key\<close> stands for what the platform yields
  for property \<open>key\<close> of \<^verbatim>\<open>Object.prototype[m]\<close>.
\<close>

definition getConversionFactor ::
  "(string \<Rightarrow> string \<Rightarrow> jsval) \<Rightarrow> string \<Rightarrow> string \<Rightarrow> normalizer_error + jsval" where
  "getConversionFactor builtin fromUnit toUnit =
     (case map_of conversions fromUnit of
        Some row \<Rightarrow>
          if \<not> truthy (row_get row toUnit) then Inl (CannotConvert fromUnit toUnit)
          else Inr (row_get row toUnit)
      | None \<Rightarrow>
          if fromUnit \<in> set Object_prototype then
            (if \<not> truthy (builtin fromUnit toUnit) then Inl (CannotConvert fromUnit toUnit)
             else Inr (builtin fromUnit toUnit))
          else Inl (CannotConvert fromUnit toUnit))"


section \<open>Unit price (lib/UnitPriceCalculator, in src/unnamed/part_002)\<close>




section \<open>Validation of the extracted data\<close>

subsection \<open>In the user interface (components/DataExtractor.tsx)\<close>

text \<open>The code units below \<open>256\<close> that \<^verbatim>\<open>trim\<close> removes.\<close>

definition whitespace :: "char \<Rightarrow> bool" where
  "whitespace c =
     (c \<in> set [CHR 0x09, CHR 0x0A, CHR 0x0B, CHR 0x0C, CHR 0x0D, CHR 0x20, CHR 0xA0])"

definition trim :: "string \<Rightarrow> string" where
  "trim s = rev (dropWhile whitespace (rev (dropWhile whitespace s)))"

definition validateExtractedData :: "ExtractedData \<Rightarrow> AppError option" where
  "validateExtractedData d =
     (case price d of
        None \<Rightarrow> Some (createAppError NO_PRICE_DETECTED None None)
      | Some p \<Rightarrow>
          if price_value p \<le> 0 \<or> price_currency p = []
          then Some (createAppError NO_PRICE_DETECTED None None)
          else
            (case weight d of
               None \<Rightarrow> Some (createAppError NO_WEIGHT_DETECTED None None)
             | Some w \<Rightarrow>
                 if weight_value w \<le> 0 \<or> weight_unit w = []
                 then Some (createAppError NO_WEIGHT_DETECTED None None)
                 else if weight_unit w \<notin> set [''g'', ''kg'', ''ml'', ''l'']
                 then Some (createAppError NO_WEIGHT_DETECTED
                              (Some ''Invalid weight unit detected'')
                              (Some [''Verifica que la unidad est'' @ e'
                                       @ '' claramente visible'',
                                     ''Aseg'' @ u' @ ''rate de que sea una unidad est'' @ a'
                                       @ ''ndar (g, kg, ml, l)'']))
                 else
                   (case product d of
                      None \<Rightarrow> Some (createAppError NO_PRODUCT_DETECTED None None)
                    | Some pr \<Rightarrow>
                        if product_name pr = [] \<or> length (trim (product_name pr)) = 0
                        then Some (createAppError NO_PRODUCT_DETECTED None None)
                        else None)))"

subsection \<open>In the analysis route (POST, in src/src/lib/secureImageProcessing.ts)\<close>

text \<open>The \<^verbatim>\<open>error\<close> member of a response without success, as the route builds it.\<close>

definition error_body :: "AppError \<Rightarrow> ApiError" where
  "error_body error =
     \<lparr>api_code = code error, api_message = message error,
      api_suggestions = Some (suggestions error)\<rparr>"

definition minConfidence :: number where
  "minConfidence = lit (3 / 10)"

definition join :: "string \<Rightarrow> string list \<Rightarrow> string" where
  "join sep xs = (case xs of [] \<Rightarrow> [] | x # rest \<Rightarrow> foldl (\<lambda>acc y. acc @ sep @ y) x rest)"

text \<open>
  The check of the parsed answer of the model and the response built from it: the
  thrown error when a field is missing, otherwise the status and body of the response.
\<close>

definition POST_validation :: "ExtractedData \<Rightarrow> thrown + int \<times> AnalyzeResponse" where
  "POST_validation parsedData =
     (case (price parsedData, weight parsedData, product parsedData) of
        (Some p, Some w, Some pr) \<Rightarrow>
          (let errors =
                 (if price_confidence p < minConfidence \<or> price_value p \<le> 0
                  then [''price information''] else [])
                 @ (if weight_confidence w < minConfidence \<or> weight_value w \<le> 0
                    then [''weight/volume information''] else [])
                 @ (if product_confidence pr < minConfidence \<or> product_name pr = []
                    then [''product name''] else [])
           in if 0 < length errors then
                (let errorCode =
                       (if ''price information'' \<in> set errors then NO_PRICE_DETECTED
                        else if ''weight/volume information'' \<in> set errors
                        then NO_WEIGHT_DETECTED
                        else NO_PRODUCT_DETECTED);
                     error = createAppError errorCode
                               (Some (''Could not clearly detect '' @ join '', '' errors)) None
                 in Inr (422, Failure (error_body error)))
              else Inr (200, Success parsedData))
      | _ \<Rightarrow>
          Inl (AppErr (createAppError API_ERROR
                         (Some ''Invalid response structure from AI'') None)))"


section \<open>Reading a trace; sequences of calls\<close>

text \<open>The attempts at which the operation was invoked, in order.\<close>

fun invocations :: "event list \<Rightarrow> int list" where
  "invocations [] = []"
| "invocations (Invoked k # tr) = k # invocations tr"
| "invocations (Observed f k e # tr) = invocations tr"
| "invocations (Slept d # tr) = invocations tr"

text \<open>The calls of the observer, in order, each with its two arguments.\<close>

fun observations :: "event list \<Rightarrow> (observer \<times> int \<times> thrown) list" where
  "observations [] = []"
| "observations (Invoked k # tr) = observations tr"
| "observations (Observed f k e # tr) = (f, k, e) # observations tr"
| "observations (Slept d # tr) = observations tr"

text \<open>An outcome that the loop answers with another attempt, unless it was the last one.\<close>

definition retryable_failure :: "RetryOptions \<Rightarrow> thrown + 'a \<Rightarrow> bool" where
  "retryable_failure opts r =
     (case r of
        Inl e \<Rightarrow> shouldRetryError (code_of e) (arr_or (retryableErrors opts) [])
      | Inr v \<Rightarrow> False)"

text \<open>What the observer \<open>f\<close> is told about the outcome of attempt \<open>k\<close>, if it is a failure.\<close>

definition report :: "observer option \<Rightarrow> 'a operation \<Rightarrow> int \<Rightarrow> (observer \<times> int \<times> thrown) list" where
  "report f operation k =
     (case (f, operation k) of (Some g, Inl e) \<Rightarrow> [(g, k, e)] | _ \<Rightarrow> [])"

definition failed :: "thrown + 'a \<Rightarrow> bool" where
  "failed r = (case r of Inl e \<Rightarrow> True | Inr v \<Rightarrow> False)"

text \<open>
  A sequence of calls of \<^verbatim>\<open>resilientApiCall\<close>, one after the other, on the shared breaker.
\<close>

fun resilientApiCalls ::
  "CircuitBreaker \<Rightarrow> (int \<times> 'a operation \<times> RetryOptions \<times> int) list \<Rightarrow> CircuitBreaker" where
  "resilientApiCalls b [] = b"
| "resilientApiCalls b ((now, operation, options, later) # calls) =
     resilientApiCalls (breaker (fst (resilientApiCall b now operation options later))) calls"


section \<open>The extraction flow of the user interface (components/DataExtractor.tsx)\<close>

record File =
  file_size :: int
  file_type :: string

text \<open>The options with which \<^verbatim>\<open>extractData\<close> calls \<^verbatim>\<open>retryImageAnalysis\<close>.\<close>

definition extractor_options :: RetryOptions where
  "extractor_options = no_options\<lparr>onRetry := Some ''useDataExtractor: console.log''\<rparr>"

text \<open>
  \<^verbatim>\<open>extractData\<close> of \<^verbatim>\<open>useDataExtractor\<close>: \<open>Inl\<close> is the error handed to
  \<^verbatim>\<open>onExtractionError\<close>, \<open>Inr\<close> the data handed to \<^verbatim>\<open>onExtractionComplete\<close>.
  \<open>responses k\<close> is what the request of attempt \<open>k\<close> to the analysis route gives. Reading
  the file is taken to succeed.
\<close>

definition extractData ::
  "File \<Rightarrow> (int \<Rightarrow> string + AnalyzeResponse) \<Rightarrow> thrown + ExtractedData" where
  "extractData file responses =
     (let maxSize = 10 * 1024 * 1024
      in if maxSize < file_size file
         then Inl (AppErr (createAppError IMAGE_TOO_LARGE None None))
         else if file_type file \<notin> set [''image/jpeg'', ''image/png'', ''image/webp'']
         then Inl (AppErr (createAppError INVALID_IMAGE_FORMAT None None))
         else
           (case fst (retryImageAnalysis responses extractor_options) of
              Inl error \<Rightarrow> Inl error
            | Inr d \<Rightarrow>
                (case validateExtractedData d of
                   Some validationError \<Rightarrow> Inl (AppErr validationError)
                 | None \<Rightarrow> Inr d)))"


section \<open>Notions used in the statements\<close>

text \<open>
  What holds of the breaker between two calls: it is open with the threshold reached, or
  closed with the count below the threshold or zero.
\<close>

definition settled :: "CircuitBreaker \<Rightarrow> bool" where
  "settled b =
     (if state b = OPEN then failureThreshold b \<le> int (failures b)
      else state b = CLOSED \<and> (int (failures b) < failureThreshold b \<or> failures b = 0))"



section \<open>Concrete runs\<close>

text \<open>An operation that fails with \<open>API_ERROR\<close> at every attempt.\<close>

definition always_API_ERROR :: "'a operation" where
  "always_API_ERROR k = Inl (AppErr (createAppError API_ERROR None None))"

text \<open>The operation of the test suite: two network failures, then success.\<close>

definition network_error :: AppError where
  "network_error =
     \<lparr>code = NETWORK_ERROR, message = ''Network error'', userMessage = ''Network error'',
      suggestions = [], recoverable = True\<rparr>"

definition twice_NETWORK_ERROR :: "string operation" where
  "twice_NETWORK_ERROR k = (if k \<le> 2 then Inl (AppErr network_error) else Inr ''success'')"

definition test_options :: RetryOptions where
  "test_options =
     no_options\<lparr>maxRetries := Some 3, baseDelay := Some 10,
                retryableErrors := Some [NETWORK_ERROR], onRetry := Some ''onRetry''\<rparr>"

text \<open>
  Two responses of the analysis route: the one for a failed authentication (status 401)
  and the one for a price that was not detected (status 422).
\<close>

definition auth_failure :: ApiError where
  "auth_failure = error_body (createAppError API_ERROR (Some ''API authentication failed'') None)"

definition price_failure :: ApiError where
  "price_failure =
     error_body (createAppError NO_PRICE_DETECTED
                   (Some ''Could not clearly detect price information'') None)"

text \<open>Every request is answered with the response for a failed authentication.\<close>

definition auth_failures :: "int \<Rightarrow> string + AnalyzeResponse" where
  "auth_failures k = Inr (Failure auth_failure)"

text \<open>A failing call at time \<open>t\<close>, and an operation that fails with a user error.\<close>

definition failing_at :: "int \<Rightarrow> int \<times> (thrown + unit) \<times> int" where
  "failing_at t = (t, Inl (JsError ''fail''), t)"

definition always_INVALID_IMAGE_FORMAT :: "unit operation" where
  "always_INVALID_IMAGE_FORMAT k = Inl (AppErr (createAppError INVALID_IMAGE_FORMAT None None))"

definition invalid_image_at :: "int \<Rightarrow> int \<times> unit operation \<times> RetryOptions \<times> int" where
  "invalid_image_at t = (t, always_INVALID_IMAGE_FORMAT, no_options, t)"

text \<open>
  Runs on a breaker with threshold 2 and timeout 1000. Two calls fail, at 0 and at 100.
  At 1101 the call 2 enters as the probe. In the first run the call 3 enters while the
  probe waits and succeeds before the probe fails; in the second it fails before the
  probe fails.
\<close>

definition two_failed_calls :: "step list" where
  "two_failed_calls = [Enter 0 0, Reject 0 0, Enter 1 100, Reject 1 100]"

definition probe_overtaken_by_success :: "step list" where
  "probe_overtaken_by_success =
     two_failed_calls @ [Enter 2 1101, Enter 3 1102, Resolve 3, Reject 2 1200]"

definition probe_overtaken_by_failure :: "step list" where
  "probe_overtaken_by_failure =
     two_failed_calls @ [Enter 2 1101, Enter 3 1102, Reject 3 1150, Reject 2 1200]"

text \<open>A weight of 500 g, as in the test suite.\<close>

definition half_kilo :: WeightField where
  "half_kilo = \<lparr>weight_value = 500, weight_unit = ''g'', weight_confidence = lit (9 / 10)\<rparr>"








text \<open>
  Extracted data whose price has the confidence 0.2, everything else being in order, and
  a photo that passes the checks of size and type.
\<close>

definition doubtful_price :: PriceField where
  "doubtful_price =
     \<lparr>price_value = lit (5 / 2), price_currency = ''EUR'', price_confidence = lit (2 / 10)\<rparr>"

definition doubtful_data :: ExtractedData where
  "doubtful_data =
     \<lparr>price = Some doubtful_price,
      weight = Some half_kilo,
      product = Some \<lparr>product_name = ''Leche'', product_brand = ''Marca'',
                       product_confidence = lit (9 / 10)\<rparr>\<rparr>"

definition photo :: File where
  "photo = \<lparr>file_size = 204800, file_type = ''image/jpeg''\<rparr>"


section \<open>Properties of the retry driver\<close>


lemma num_or_Some: "m \<noteq> 0 \<Longrightarrow> num_or (Some m) d = m"
  by (simp add: num_or_def)

lemma retry_loop_stop:
  assumes "attempt \<le> num_or (maxRetries opts) 3"
    and "\<not> retryable_failure opts (operation attempt) \<or> Some attempt = maxRetries opts"
  shows "retry_loop opts operation attempt lastError = (operation attempt, [Invoked attempt])"
  using assms
  by (subst retry_loop.simps) (auto simp: retryable_failure_def split: sum.splits)

lemma retry_loop_again:
  assumes "attempt \<le> num_or (maxRetries opts) 3"
    and "operation attempt = Inl e"
    and "retryable_failure opts (operation attempt)"
    and "Some attempt \<noteq> maxRetries opts"
  shows "fst (retry_loop opts operation attempt lastError)
           = fst (retry_loop opts operation (attempt + 1) (Some e))"
    and "invocations (snd (retry_loop opts operation attempt lastError))
           = attempt # invocations (snd (retry_loop opts operation (attempt + 1) (Some e)))"
    and "observations (snd (retry_loop opts operation attempt lastError))
           = report (onRetry opts) operation attempt
             @ observations (snd (retry_loop opts operation (attempt + 1) (Some e)))"
  using assms
  by (subst retry_loop.simps; simp add: retryable_failure_def report_def Let_def split: option.splits)+

lemma retry_loop_run:
  assumes "maxRetries opts = Some m" and "m \<noteq> 0" and "a \<le> m"
  shows "\<exists>n. a \<le> n \<and> n \<le> m
           \<and> fst (retry_loop opts operation a lastError) = operation n
           \<and> invocations (snd (retry_loop opts operation a lastError)) = [a..n]
           \<and> observations (snd (retry_loop opts operation a lastError))
               = concat (map (report (onRetry opts) operation) [a..n - 1])
           \<and> (\<forall>k. a \<le> k \<and> k < n \<longrightarrow> retryable_failure opts (operation k))
           \<and> (n < m \<longrightarrow> \<not> retryable_failure opts (operation n))"
  using assms(3)
proof (induction "nat (m - a)" arbitrary: a lastError)
  case 0
  then have am: "a = m" by simp
  have bound: "a \<le> num_or (maxRetries opts) 3"
    using assms(1,2) am by (simp add: num_or_Some)
  have "retry_loop opts operation a lastError = (operation a, [Invoked a])"
    by (rule retry_loop_stop [OF bound]) (simp add: assms(1) am)
  then show ?case using am by (intro exI [of _ a]) auto
next
  case (Suc d)
  then have lt: "a < m" by linarith
  have bound: "a \<le> num_or (maxRetries opts) 3"
    using assms(1,2) lt by (simp add: num_or_Some)
  show ?case
  proof (cases "retryable_failure opts (operation a)")
    case False
    have "retry_loop opts operation a lastError = (operation a, [Invoked a])"
      by (rule retry_loop_stop [OF bound]) (simp add: False)
    then show ?thesis using lt False by (intro exI [of _ a]) auto
  next
    case True
    then obtain e where e: "operation a = Inl e"
      by (auto simp: retryable_failure_def split: sum.splits)
    have ne: "Some a \<noteq> maxRetries opts" using assms(1) lt by simp
    note again = retry_loop_again [where operation = operation and attempt = a, OF bound e True ne]
    have d: "d = nat (m - (a + 1))" using Suc.hyps(2) by linarith
    have le: "a + 1 \<le> m" using lt by simp
    from Suc.hyps(1) [OF d le, of "Some e"] obtain n where n:
      "a + 1 \<le> n" "n \<le> m"
      "fst (retry_loop opts operation (a + 1) (Some e)) = operation n"
      "invocations (snd (retry_loop opts operation (a + 1) (Some e))) = [a + 1..n]"
      "observations (snd (retry_loop opts operation (a + 1) (Some e)))
         = concat (map (report (onRetry opts) operation) [a + 1..n - 1])"
      "\<forall>k. a + 1 \<le> k \<and> k < n \<longrightarrow> retryable_failure opts (operation k)"
      "n < m \<longrightarrow> \<not> retryable_failure opts (operation n)"
      by blast
    have up1: "[a..n] = a # [a + 1..n]" using n(1) by (simp add: upto_rec1)
    have up2: "[a..n - 1] = a # [a + 1..n - 1]" using n(1) by (simp add: upto_rec1)
    have all: "\<forall>k. a \<le> k \<and> k < n \<longrightarrow> retryable_failure opts (operation k)"
    proof (intro allI impI)
      fix k assume k: "a \<le> k \<and> k < n"
      show "retryable_failure opts (operation k)"
      proof (cases "k = a")
        case True with \<open>retryable_failure opts (operation a)\<close> show ?thesis by simp
      next
        case False with k n(6) show ?thesis by simp
      qed
    qed
    show ?thesis
      using n(1,2,3,4,5,7) all up1 up2
      by (intro exI [of _ n]) (simp add: again(1)[of lastError] again(2)[of lastError] again(3)[of lastError])
  qed
qed


lemma spread_maxRetries:
  "maxRetries options = Some m \<Longrightarrow> maxRetries (spread base options) = Some m"
  by (simp add: spread_def override_def)

lemma spread_retryableErrors:
  "retryableErrors options = Some rs \<Longrightarrow> retryableErrors (spread base options) = Some rs"
  by (simp add: spread_def override_def)

lemma spread_default_onRetry:
  "onRetry (spread DEFAULT_RETRY_OPTIONS options) = onRetry options"
  by (simp add: spread_def override_def DEFAULT_RETRY_OPTIONS_def split: option.splits)


lemma default_maxRetries: "maxRetries DEFAULT_RETRY_OPTIONS = Some 3"
  by (simp add: DEFAULT_RETRY_OPTIONS_def API_RETRY_STRATEGY_def)

lemma default_retryableErrors:
  "retryableErrors DEFAULT_RETRY_OPTIONS = Some [NETWORK_ERROR, API_RATE_LIMIT, API_ERROR]"
  by (simp add: DEFAULT_RETRY_OPTIONS_def API_RETRY_STRATEGY_def)

lemma retryWithBackoff_run:
  assumes "maxRetries (spread DEFAULT_RETRY_OPTIONS options) = Some m" and "1 \<le> m"
  shows "\<exists>n. 1 \<le> n \<and> n \<le> m
           \<and> fst (retryWithBackoff operation options) = operation n
           \<and> invocations (snd (retryWithBackoff operation options)) = [1..n]
           \<and> observations (snd (retryWithBackoff operation options))
               = concat (map (report (onRetry options) operation) [1..n - 1])
           \<and> (\<forall>k. 1 \<le> k \<and> k < n \<longrightarrow>
                  retryable_failure (spread DEFAULT_RETRY_OPTIONS options) (operation k))
           \<and> (n < m \<longrightarrow>
                  \<not> retryable_failure (spread DEFAULT_RETRY_OPTIONS options) (operation n))"
proof -
  have "m \<noteq> 0" using assms(2) by simp
  from retry_loop_run
    [where operation = operation and lastError = None, OF assms(1) this assms(2)]
  show ?thesis
    by (simp add: retryWithBackoff_def spread_default_onRetry)
qed




lemma retryWithBackoff_twice_then_success:
  assumes "maxRetries options = Some 3"
    and "retryableErrors options = Some [NETWORK_ERROR]"
    and "operation 1 = Inl (AppErr e1)" and "code e1 = NETWORK_ERROR"
    and "operation 2 = Inl (AppErr e2)" and "code e2 = NETWORK_ERROR"
    and "operation 3 = Inr v"
  shows "fst (retryWithBackoff operation options) = Inr v"
    and "invocations (snd (retryWithBackoff operation options)) = [1, 2, 3]"
    and "observations (snd (retryWithBackoff operation options))
           = report (onRetry options) operation 1 @ report (onRetry options) operation 2"
proof -
  define opts where "opts = spread DEFAULT_RETRY_OPTIONS options"
  have m: "maxRetries opts = Some 3"
    unfolding opts_def by (rule spread_maxRetries [OF assms(1)])
  have rs: "retryableErrors opts = Some [NETWORK_ERROR]"
    unfolding opts_def by (rule spread_retryableErrors [OF assms(2)])
  have f: "onRetry opts = onRetry options"
    unfolding opts_def by (rule spread_default_onRetry)
  have b1: "1 \<le> num_or (maxRetries opts) 3" by (simp add: m num_or_def)
  have b2: "2 \<le> num_or (maxRetries opts) 3" by (simp add: m num_or_def)
  have b3: "3 \<le> num_or (maxRetries opts) 3" by (simp add: m num_or_def)
  have r1: "retryable_failure opts (operation 1)"
    by (simp add: retryable_failure_def assms(3,4) rs arr_or_def shouldRetryError_def code_of_def)
  have r2: "retryable_failure opts (operation 2)"
    by (simp add: retryable_failure_def assms(5,6) rs arr_or_def shouldRetryError_def code_of_def)
  have n1: "Some 1 \<noteq> maxRetries opts" by (simp add: m)
  have n2: "Some 2 \<noteq> maxRetries opts" by (simp add: m)
  note s1 = retry_loop_again [where operation = operation and attempt = 1 and opts = opts
      and lastError = None, OF b1 assms(3) r1 n1]
  note s2 = retry_loop_again [where operation = operation and attempt = 2 and opts = opts
      and lastError = "Some (AppErr e1)", OF b2 assms(5) r2 n2]
  have s3: "retry_loop opts operation 3 (Some (AppErr e2)) = (operation 3, [Invoked 3])"
    by (rule retry_loop_stop [OF b3]) (simp add: m)
  have one: "(1::int) + 1 = 2" and two: "(2::int) + 1 = 3" by simp_all
  show "fst (retryWithBackoff operation options) = Inr v"
    unfolding retryWithBackoff_def opts_def [symmetric]
    by (simp only: s1(1) one s2(1) two s3 fst_conv assms(7))
  show "invocations (snd (retryWithBackoff operation options)) = [1, 2, 3]"
    unfolding retryWithBackoff_def opts_def [symmetric]
    by (simp only: s1(2) one s2(2) two s3 snd_conv invocations.simps)
  show "observations (snd (retryWithBackoff operation options))
           = report (onRetry options) operation 1 @ report (onRetry options) operation 2"
    unfolding retryWithBackoff_def opts_def [symmetric]
    by (simp only: s1(3) one s2(3) two s3 snd_conv observations.simps f append_Nil2)
qed


lemma retryWithBackoff_not_retryable:
  assumes "maxRetries (spread DEFAULT_RETRY_OPTIONS options) = Some m" and "1 \<le> m"
    and "retryableErrors (spread DEFAULT_RETRY_OPTIONS options) = Some rs"
    and "operation 1 = Inl (AppErr e)" and "code e \<notin> set rs"
  shows "retryWithBackoff operation options = (Inl (AppErr e), [Invoked 1])"
proof -
  define opts where "opts = spread DEFAULT_RETRY_OPTIONS options"
  have m: "maxRetries opts = Some m"
    unfolding opts_def by (rule assms(1))
  have rs: "retryableErrors opts = Some rs"
    unfolding opts_def by (rule assms(3))
  have b: "1 \<le> num_or (maxRetries opts) 3"
    using assms(2) by (simp add: m num_or_def)
  have "\<not> retryable_failure opts (operation 1)"
    by (simp add: retryable_failure_def assms(4,5) rs arr_or_def shouldRetryError_def code_of_def)
  then have "retry_loop opts operation 1 None = (operation 1, [Invoked 1])"
    by (intro retry_loop_stop [OF b]) simp
  then show ?thesis by (simp add: retryWithBackoff_def opts_def assms(4))
qed

text \<open>
  Claim C4. \<^verbatim>\<open>retryWithBackoff\<close> invokes the operation the number of times the
  specification states and hands on the outcome of the last invocation unchanged. With
  \<open>maxRetries = m \<ge> 1\<close> (the caller's, or the default 3) the run makes the attempts \<open>1, \<dots>, n\<close> for some \<open>n \<le> m\<close>: every
  attempt before \<open>n\<close> failed with a retryable code, attempt \<open>n\<close> is the first that
  succeeds or fails with a code that is not retryable, or it is attempt \<open>m\<close>; the result
  is the outcome of attempt \<open>n\<close>. The observer is called once for each attempt before
  \<open>n\<close>, with the number of the attempt and its error, and never for attempt \<open>n\<close>, so
  neither on success nor on the final failing attempt. In particular an operation that
  fails twice with \<open>NETWORK_ERROR\<close> and then succeeds returns the success after three
  invocations when \<open>retryableErrors = [NETWORK_ERROR]\<close> and \<open>maxRetries = 3\<close>, and an
  operation whose first failure has a code outside \<open>retryableErrors\<close> is invoked once
  and that error is the result.
\<close>

theorem retryWithBackoff_invocations_and_observer:
  "(maxRetries (spread DEFAULT_RETRY_OPTIONS options) = Some m \<and> 1 \<le> m \<longrightarrow>
      (\<exists>n. 1 \<le> n \<and> n \<le> m
         \<and> fst (retryWithBackoff operation options) = operation n
         \<and> invocations (snd (retryWithBackoff operation options)) = [1..n]
         \<and> observations (snd (retryWithBackoff operation options))
             = concat (map (report (onRetry options) operation) [1..n - 1])
         \<and> (\<forall>k. 1 \<le> k \<and> k < n \<longrightarrow>
                retryable_failure (spread DEFAULT_RETRY_OPTIONS options) (operation k))
         \<and> (n < m \<longrightarrow>
                \<not> retryable_failure (spread DEFAULT_RETRY_OPTIONS options) (operation n))))
   \<and> (maxRetries options = Some 3 \<and> retryableErrors options = Some [NETWORK_ERROR]
        \<and> operation 1 = Inl (AppErr e1) \<and> code e1 = NETWORK_ERROR
        \<and> operation 2 = Inl (AppErr e2) \<and> code e2 = NETWORK_ERROR
        \<and> operation 3 = Inr v \<longrightarrow>
          fst (retryWithBackoff operation options) = Inr v
        \<and> invocations (snd (retryWithBackoff operation options)) = [1, 2, 3]
        \<and> observations (snd (retryWithBackoff operation options))
            = report (onRetry options) operation 1 @ report (onRetry options) operation 2)
   \<and> (maxRetries (spread DEFAULT_RETRY_OPTIONS options) = Some m \<and> 1 \<le> m
        \<and> retryableErrors (spread DEFAULT_RETRY_OPTIONS options) = Some rs
        \<and> operation 1 = Inl (AppErr e) \<and> code e \<notin> set rs \<longrightarrow>
          fst (retryWithBackoff operation options) = Inl (AppErr e)
        \<and> invocations (snd (retryWithBackoff operation options)) = [1]
        \<and> observations (snd (retryWithBackoff operation options)) = [])"
proof (intro conjI impI; (elim conjE)?)
  assume "maxRetries (spread DEFAULT_RETRY_OPTIONS options) = Some m" and "1 \<le> m"
  then show "\<exists>n. 1 \<le> n \<and> n \<le> m
         \<and> fst (retryWithBackoff operation options) = operation n
         \<and> invocations (snd (retryWithBackoff operation options)) = [1..n]
         \<and> observations (snd (retryWithBackoff operation options))
             = concat (map (report (onRetry options) operation) [1..n - 1])
         \<and> (\<forall>k. 1 \<le> k \<and> k < n \<longrightarrow>
                retryable_failure (spread DEFAULT_RETRY_OPTIONS options) (operation k))
         \<and> (n < m \<longrightarrow>
                \<not> retryable_failure (spread DEFAULT_RETRY_OPTIONS options) (operation n))"
    by (rule retryWithBackoff_run)
next
  assume a: "maxRetries options = Some 3" "retryableErrors options = Some [NETWORK_ERROR]"
    "operation 1 = Inl (AppErr e1)" "code e1 = NETWORK_ERROR"
    "operation 2 = Inl (AppErr e2)" "code e2 = NETWORK_ERROR" "operation 3 = Inr v"
  show "fst (retryWithBackoff operation options) = Inr v"
    by (rule retryWithBackoff_twice_then_success(1) [OF a])
  show "invocations (snd (retryWithBackoff operation options)) = [1, 2, 3]"
    by (rule retryWithBackoff_twice_then_success(2) [OF a])
  show "observations (snd (retryWithBackoff operation options))
            = report (onRetry options) operation 1 @ report (onRetry options) operation 2"
    by (rule retryWithBackoff_twice_then_success(3) [OF a])
next
  assume a: "maxRetries (spread DEFAULT_RETRY_OPTIONS options) = Some m" "1 \<le> m"
    "retryableErrors (spread DEFAULT_RETRY_OPTIONS options) = Some rs"
    "operation 1 = Inl (AppErr e)" "code e \<notin> set rs"
  note r = retryWithBackoff_not_retryable [where operation = operation, OF a]
  show "fst (retryWithBackoff operation options) = Inl (AppErr e)" by (simp add: r)
  show "invocations (snd (retryWithBackoff operation options)) = [1]" by (simp add: r)
  show "observations (snd (retryWithBackoff operation options)) = []" by (simp add: r)
qed

lemma test_options_fields:
  "maxRetries test_options = Some 3" "retryableErrors test_options = Some [NETWORK_ERROR]"
  "onRetry test_options = Some ''onRetry''"
  by (simp_all add: test_options_def no_options_def)

theorem retryWithBackoff_invocations_and_observer_witness:
  "fst (retryWithBackoff twice_NETWORK_ERROR test_options) = Inr ''success''
   \<and> invocations (snd (retryWithBackoff twice_NETWORK_ERROR test_options)) = [1, 2, 3]
   \<and> observations (snd (retryWithBackoff twice_NETWORK_ERROR test_options))
       = [(''onRetry'', 1, AppErr network_error), (''onRetry'', 2, AppErr network_error)]
   \<and> fst (retryWithBackoff always_API_ERROR
            (test_options :: RetryOptions)) = (always_API_ERROR 1 :: thrown + unit)
   \<and> invocations (snd (retryWithBackoff (always_API_ERROR :: unit operation) test_options)) = [1]
   \<and> (\<exists>n. 1 \<le> n \<and> n \<le> 3
          \<and> fst (retryWithBackoff twice_NETWORK_ERROR test_options) = twice_NETWORK_ERROR n
          \<and> invocations (snd (retryWithBackoff twice_NETWORK_ERROR test_options)) = [1..n]
          \<and> observations (snd (retryWithBackoff twice_NETWORK_ERROR test_options))
              = concat (map (report (Some ''onRetry'') twice_NETWORK_ERROR) [1..n - 1]))"
proof -
  have c: "code network_error = NETWORK_ERROR" by (simp add: network_error_def)
  have o1: "twice_NETWORK_ERROR 1 = Inl (AppErr network_error)"
    and o2: "twice_NETWORK_ERROR 2 = Inl (AppErr network_error)"
    and o3: "twice_NETWORK_ERROR 3 = Inr ''success''"
    by (simp_all add: twice_NETWORK_ERROR_def)
  have a1: "(always_API_ERROR 1 :: thrown + unit)
              = Inl (AppErr (createAppError API_ERROR None None))"
    by (simp add: always_API_ERROR_def)
  have a2: "code (createAppError API_ERROR None None) \<notin> set [NETWORK_ERROR]"
    by (simp add: createAppError_def Let_def)
  note t = retryWithBackoff_invocations_and_observer
    [where options = test_options and operation = twice_NETWORK_ERROR and m = 3
       and ?e1.0 = network_error and ?e2.0 = network_error and v = "''success''"]
  note u = retryWithBackoff_invocations_and_observer
    [where options = test_options and operation = "always_API_ERROR :: unit operation"
       and m = 3 and rs = "[NETWORK_ERROR]" and e = "createAppError API_ERROR None None"]
  have tm: "maxRetries (spread DEFAULT_RETRY_OPTIONS test_options) = Some 3"
    by (rule spread_maxRetries) (simp add: test_options_fields)
  have tr: "retryableErrors (spread DEFAULT_RETRY_OPTIONS test_options) = Some [NETWORK_ERROR]"
    by (rule spread_retryableErrors) (simp add: test_options_fields)
  from t have "fst (retryWithBackoff twice_NETWORK_ERROR test_options) = Inr ''success''
      \<and> invocations (snd (retryWithBackoff twice_NETWORK_ERROR test_options)) = [1, 2, 3]
      \<and> observations (snd (retryWithBackoff twice_NETWORK_ERROR test_options))
          = report (onRetry test_options) twice_NETWORK_ERROR 1
            @ report (onRetry test_options) twice_NETWORK_ERROR 2"
    by (simp add: test_options_fields c o1 o2 o3)
  moreover from u have "fst (retryWithBackoff always_API_ERROR test_options)
        = (always_API_ERROR 1 :: thrown + unit)
      \<and> invocations (snd (retryWithBackoff (always_API_ERROR :: unit operation) test_options))
          = [1]"
    using a2 by (simp add: tm tr a1)
  moreover from t [THEN conjunct1] tm have "\<exists>n. 1 \<le> n \<and> n \<le> 3
          \<and> fst (retryWithBackoff twice_NETWORK_ERROR test_options) = twice_NETWORK_ERROR n
          \<and> invocations (snd (retryWithBackoff twice_NETWORK_ERROR test_options)) = [1..n]
          \<and> observations (snd (retryWithBackoff twice_NETWORK_ERROR test_options))
              = concat (map (report (onRetry test_options) twice_NETWORK_ERROR) [1..n - 1])"
    by simp blast
  ultimately show ?thesis
    by (simp add: report_def test_options_fields o1 o2)
qed




lemma retryApiCall_options:
  "retryApiCall apiCall options =
     retry_loop
       (spread DEFAULT_RETRY_OPTIONS
          (spread
             (spread DEFAULT_RETRY_OPTIONS
                (no_options
                   \<lparr>retryableErrors := Some [NETWORK_ERROR, API_RATE_LIMIT, API_ERROR],
                    onRetry := Some ''retryApiCall: console.warn''\<rparr>))
             options))
       apiCall 1 None"
  by (simp add: retryApiCall_def apiRetryOptions_def retryWithBackoff_def)

lemma api_options_default:
  "spread DEFAULT_RETRY_OPTIONS
          (spread
             (spread DEFAULT_RETRY_OPTIONS
                (no_options
                   \<lparr>retryableErrors := Some [NETWORK_ERROR, API_RATE_LIMIT, API_ERROR],
                    onRetry := Some ''retryApiCall: console.warn''\<rparr>))
             no_options)
   = DEFAULT_RETRY_OPTIONS\<lparr>onRetry := Some ''retryApiCall: console.warn''\<rparr>"
  by (simp add: spread_def override_def no_options_def DEFAULT_RETRY_OPTIONS_def
        API_RETRY_STRATEGY_def)


lemma retry_loop_three_failures:
  assumes m: "maxRetries opts = Some 3"
    and r: "\<forall>k. retryable_failure opts (operation k)"
  shows "fst (retry_loop opts operation 1 None) = operation 3"
    and "invocations (snd (retry_loop opts operation 1 None)) = [1, 2, 3]"
    and "observations (snd (retry_loop opts operation 1 None))
           = report (onRetry opts) operation 1 @ report (onRetry opts) operation 2"
proof -
  have three: "(3::int) \<noteq> 0" and le: "(1::int) \<le> 3" by simp_all
  from retry_loop_run [where operation = operation and lastError = None, OF m three le]
  obtain n where n: "1 \<le> n" "n \<le> 3"
    "fst (retry_loop opts operation 1 None) = operation n"
    "invocations (snd (retry_loop opts operation 1 None)) = [1..n]"
    "observations (snd (retry_loop opts operation 1 None))
       = concat (map (report (onRetry opts) operation) [1..n - 1])"
    "n < 3 \<longrightarrow> \<not> retryable_failure opts (operation n)"
    by blast
  from n(2,6) r have n3: "n = 3" by force
  have u3: "[1..(3::int)] = [1, 2, 3]" and u2: "[1..(3::int) - 1] = [1, 2]"
    by (simp_all add: upto_rec1)
  show "fst (retry_loop opts operation 1 None) = operation 3" using n(3) n3 by simp
  show "invocations (snd (retry_loop opts operation 1 None)) = [1, 2, 3]"
    using n(4) n3 u3 by simp
  show "observations (snd (retry_loop opts operation 1 None))
           = report (onRetry opts) operation 1 @ report (onRetry opts) operation 2"
    using n(5) n3 u2 by simp
qed





section \<open>Properties of the error classification\<close>

lemma createAppError_recoverable:
  "recoverable (createAppError c originalMessage customSuggestions)
     = (ERROR_CATEGORIES c \<noteq> CRITICAL_ERROR)"
  by (simp add: createAppError_def Let_def)

lemma critical_iff_API_ERROR: "(ERROR_CATEGORIES c = CRITICAL_ERROR) = (c = API_ERROR)"
  by (cases c) simp_all

lemma createAppError_code: "code (createAppError c originalMessage customSuggestions) = c"
  by (simp add: createAppError_def Let_def)

lemma analysisOptions_extractor:
  "retryableErrors (analysisOptions extractor_options)
     = Some [NETWORK_ERROR, API_RATE_LIMIT, API_ERROR]"
  "maxRetries (analysisOptions extractor_options) = Some 3"
  by (simp_all add: analysisOptions_def extractor_options_def spread_def override_def
        no_options_def DEFAULT_RETRY_OPTIONS_def API_RETRY_STRATEGY_def)

text \<open>
  Claim C3. The field \<open>recoverable\<close> should be false exactly for the critical code
  \<open>API_ERROR\<close>, whatever the caller passes. \<^verbatim>\<open>createAppError\<close> does that
  (\<open>createAppError_recoverable\<close>, \<open>critical_iff_API_ERROR\<close>). The error that
  \<^verbatim>\<open>retryImageAnalysis\<close> builds from a response of the analysis route does not: its
  \<open>recoverable\<close> says whether the code is in \<open>retryableErrors\<close>. With the options of
  \<^verbatim>\<open>useDataExtractor\<close>, a failed authentication surfaces, after three attempts, as an
  \<open>API_ERROR\<close> with \<open>recoverable = True\<close>, where \<^verbatim>\<open>createAppError\<close> gives
  \<open>False\<close>; a price that was not detected, a user error, gets \<open>recoverable = False\<close>;
  and a caller who passes \<open>retryableErrors\<close> changes the field.
\<close>

theorem analysis_error_recoverable_by_retryability:
  "fst (retryImageAnalysis auth_failures extractor_options)
     = Inl (AppErr \<lparr>code = API_ERROR,
                     message = ''API authentication failed'',
                     userMessage = ''API authentication failed'',
                     suggestions = info_suggestions (ERROR_MESSAGES API_ERROR),
                     recoverable = True\<rparr>)
   \<and> ERROR_CATEGORIES API_ERROR = CRITICAL_ERROR
   \<and> recoverable (createAppError API_ERROR (Some ''API authentication failed'') None) = False
   \<and> recoverable (analysisError extractor_options price_failure) = False
   \<and> ERROR_CATEGORIES (code (analysisError extractor_options price_failure)) = USER_ERROR
   \<and> recoverable (analysisError (extractor_options\<lparr>retryableErrors := Some [NO_PRICE_DETECTED]\<rparr>)
                     price_failure) = True"
proof -
  define opts where "opts = spread DEFAULT_RETRY_OPTIONS
          (spread
             (spread DEFAULT_RETRY_OPTIONS
                (no_options
                   \<lparr>retryableErrors := Some [NETWORK_ERROR, API_RATE_LIMIT, API_ERROR],
                    onRetry := Some ''retryApiCall: console.warn''\<rparr>))
             (analysisOptions extractor_options))"
  define e where "e = \<lparr>code = API_ERROR,
                     message = ''API authentication failed'',
                     userMessage = ''API authentication failed'',
                     suggestions = info_suggestions (ERROR_MESSAGES API_ERROR),
                     recoverable = True\<rparr>"
  have f: "maxRetries opts = Some 3"
      "retryableErrors opts = Some [NETWORK_ERROR, API_RATE_LIMIT, API_ERROR]"
    by (simp_all add: opts_def analysisOptions_extractor spread_def override_def)
  have op: "analysisCall extractor_options (auth_failures k) = Inl (AppErr e)" for k
    by (simp add: analysisCall_def auth_failures_def analysisError_def auth_failure_def
          error_body_def createAppError_def Let_def str_or_def arr_or_def
          analysisOptions_extractor shouldRetryError_def e_def)
  have r: "\<forall>k. retryable_failure opts (analysisCall extractor_options (auth_failures k))"
    by (simp add: op retryable_failure_def f arr_or_def shouldRetryError_def code_of_def e_def)
  have "fst (retry_loop opts (\<lambda>k. analysisCall extractor_options (auth_failures k)) 1 None)
          = analysisCall extractor_options (auth_failures 3)"
    by (rule retry_loop_three_failures(1) [OF f(1) r])
  then have "fst (retryImageAnalysis auth_failures extractor_options) = Inl (AppErr e)"
    unfolding retryImageAnalysis_def retryApiCall_options opts_def [symmetric]
    by (simp only: op)
  moreover have "recoverable (analysisError extractor_options price_failure) = False"
    by (simp add: analysisError_def price_failure_def error_body_def createAppError_def
          Let_def arr_or_def analysisOptions_extractor shouldRetryError_def)
  moreover have "ERROR_CATEGORIES (code (analysisError extractor_options price_failure))
        = USER_ERROR"
    by (simp add: analysisError_def price_failure_def error_body_def createAppError_def Let_def)
  moreover have "recoverable
      (analysisError (extractor_options\<lparr>retryableErrors := Some [NO_PRICE_DETECTED]\<rparr>)
         price_failure) = True"
    by (simp add: analysisError_def price_failure_def error_body_def createAppError_def
          Let_def arr_or_def analysisOptions_def extractor_options_def spread_def override_def
          no_options_def shouldRetryError_def)
  ultimately show ?thesis
    by (simp add: e_def createAppError_recoverable)
qed

section \<open>Properties of the circuit breaker\<close>

lemma execute_rejects:
  assumes "state b = OPEN" and "now - lastFailureTime b \<le> recoveryTimeout b"
  shows "execute b now operation later
           = \<lparr>breaker = b, outcome = Inl (JsError ''Circuit breaker is OPEN''),
              invoked_in = None\<rparr>"
  using assms by (simp add: execute_def admit_def)

lemma execute_probes:
  assumes "state b = OPEN" and "recoveryTimeout b < now - lastFailureTime b"
  shows "invoked_in (execute b now operation later) = Some HALF_OPEN"
  using assms by (simp add: execute_def admit_def split: sum.splits)

lemma execute_failure:
  assumes "invoked_in (execute b now (Inl e) later) \<noteq> None"
  shows "outcome (execute b now (Inl e) later) = Inl e"
    and "failures (breaker (execute b now (Inl e) later)) = failures b + 1"
  using assms
  by (auto simp: execute_def admit_def onFailure_def Let_def split: if_splits)

lemma execute_config:
  "failureThreshold (breaker (execute b now operation later)) = failureThreshold b"
  "recoveryTimeout (breaker (execute b now operation later)) = recoveryTimeout b"
  by (auto simp: execute_def admit_def onFailure_def onSuccess_def Let_def
        split: if_splits sum.splits)

lemma executes_config:
  "failureThreshold (executes b calls) = failureThreshold b"
  "recoveryTimeout (executes b calls) = recoveryTimeout b"
  by (induction b calls rule: executes.induct) (simp_all add: execute_config)

lemma settled_new: "settled (new_CircuitBreaker threshold timeout)"
  by (simp add: settled_def new_CircuitBreaker_def)

lemma settled_execute: "settled b \<Longrightarrow> settled (breaker (execute b now operation later))"
  by (auto simp: settled_def execute_def admit_def onFailure_def onSuccess_def Let_def
        split: if_splits sum.splits)

lemma settled_executes: "settled b \<Longrightarrow> settled (executes b calls)"
  by (induction b calls rule: executes.induct) (simp_all add: settled_execute)



text \<open>A failing call leaves a settled breaker open, or closed with one more failure counted.\<close>

lemma settled_failure_step:
  assumes "settled b"
  shows "state (breaker (execute b now (Inl e) later)) = OPEN
         \<or> (state (breaker (execute b now (Inl e) later)) = CLOSED
            \<and> state b = CLOSED
            \<and> failures (breaker (execute b now (Inl e) later)) = failures b + 1
            \<and> int (failures b + 1) < failureThreshold b)"
  using assms
  by (auto simp: settled_def execute_def admit_def onFailure_def Let_def split: if_splits)

lemma failures_accumulate:
  assumes "settled b" and "\<forall>c \<in> set calls. failed (fst (snd c))"
  shows "state (executes b calls) = OPEN
         \<or> (state (executes b calls) = CLOSED
            \<and> failures (executes b calls) = failures b + length calls
            \<and> (calls \<noteq> [] \<longrightarrow> int (failures b + length calls) < failureThreshold b))"
  using assms
proof (induction calls arbitrary: b rule: rev_induct)
  case Nil
  then show ?case by (auto simp: settled_def split: if_splits)
next
  case (snoc c calls)
  obtain now operation later where c: "c = (now, operation, later)" by (cases c) auto
  from snoc.prems(2) c obtain e where e: "operation = Inl e"
    by (cases operation) (auto simp: failed_def)
  have ex: "executes b (calls @ [c]) = breaker (execute (executes b calls) now operation later)"
    for b calls
    by (induction b calls rule: executes.induct) (simp_all add: c)
  let ?b = "executes b calls"
  have s: "settled ?b" by (rule settled_executes [OF snoc.prems(1)])
  have ih: "state ?b = OPEN \<or> (state ?b = CLOSED \<and> failures ?b = failures b + length calls
            \<and> (calls \<noteq> [] \<longrightarrow> int (failures b + length calls) < failureThreshold b))"
    using snoc.IH [OF snoc.prems(1)] snoc.prems(2) by simp
  from settled_failure_step [OF s, of now e later] ih
  show ?case
    by (auto simp: ex e executes_config)
qed

lemma threshold_failures_open:
  assumes "settled b" and "0 < failureThreshold b"
    and "length calls = nat (failureThreshold b)"
    and "\<forall>c \<in> set calls. failed (fst (snd c))"
  shows "state (executes b calls) = OPEN"
proof -
  from assms(2,3) have ne: "calls \<noteq> []" by auto
  from failures_accumulate [OF assms(1,4)] ne assms(2,3) show ?thesis by auto
qed

text \<open>
  Claim C5. After \<open>failureThreshold\<close> consecutive failures (with a positive threshold,
  from the new breaker or after any earlier calls) the state is \<open>OPEN\<close>. While the state
  is \<open>OPEN\<close> and the time since the last failure does not exceed \<open>recoveryTimeout\<close>, a
  call of \<^verbatim>\<open>execute\<close> fails with the circuit-open error without invoking the operation
  and leaves the breaker as it is, so every further such call does the same. Once more
  than \<open>recoveryTimeout\<close> has passed, the next call moves the state to \<open>HALF_OPEN\<close> and
  invokes the operation in that state.
\<close>

theorem breaker_opens_rejects_and_probes:
  "(0 < threshold \<and> length calls = nat threshold \<and> (\<forall>c \<in> set calls. failed (fst (snd c)))
      \<longrightarrow> state (executes (executes (new_CircuitBreaker threshold timeout) before) calls) = OPEN)
   \<and> (state b = OPEN \<and> now - lastFailureTime b \<le> recoveryTimeout b
      \<longrightarrow> execute b now operation later
            = \<lparr>breaker = b, outcome = Inl (JsError ''Circuit breaker is OPEN''),
               invoked_in = None\<rparr>)
   \<and> (state b = OPEN \<and> recoveryTimeout b < now - lastFailureTime b
      \<longrightarrow> invoked_in (execute b now operation later) = Some HALF_OPEN)"
proof (intro conjI impI; (elim conjE)?)
  let ?b = "executes (new_CircuitBreaker threshold timeout) before"
  assume a: "0 < threshold" "length calls = nat threshold"
    "\<forall>c \<in> set calls. failed (fst (snd c))"
  have s: "settled ?b" by (rule settled_executes [OF settled_new])
  have t: "failureThreshold ?b = threshold"
    by (simp add: executes_config new_CircuitBreaker_def)
  show "state (executes ?b calls) = OPEN"
    by (rule threshold_failures_open [OF s]) (simp_all add: t a)
next
  assume "state b = OPEN" "now - lastFailureTime b \<le> recoveryTimeout b"
  then show "execute b now operation later
            = \<lparr>breaker = b, outcome = Inl (JsError ''Circuit breaker is OPEN''),
               invoked_in = None\<rparr>"
    by (rule execute_rejects)
next
  assume "state b = OPEN" "recoveryTimeout b < now - lastFailureTime b"
  then show "invoked_in (execute b now operation later) = Some HALF_OPEN"
    by (rule execute_probes)
qed

lemma two_failures:
  "executes (new_CircuitBreaker 2 1000) [failing_at 0, failing_at 100]
     = \<lparr>failures = 2, lastFailureTime = 100, state = OPEN,
        failureThreshold = 2, recoveryTimeout = 1000\<rparr>"
  by (simp add: failing_at_def new_CircuitBreaker_def execute_def admit_def onFailure_def Let_def)

theorem breaker_opens_rejects_and_probes_witness:
  "state (executes (new_CircuitBreaker 2 1000) [failing_at 0, failing_at 100]) = OPEN
   \<and> execute (executes (new_CircuitBreaker 2 1000) [failing_at 0, failing_at 100])
        1100 (Inr ''success'') 1100
       = \<lparr>breaker = executes (new_CircuitBreaker 2 1000) [failing_at 0, failing_at 100],
          outcome = Inl (JsError ''Circuit breaker is OPEN''), invoked_in = None\<rparr>
   \<and> invoked_in (execute (executes (new_CircuitBreaker 2 1000) [failing_at 0, failing_at 100])
                   1101 (Inr ''success'') 1101) = Some HALF_OPEN"
proof -
  let ?b = "executes (new_CircuitBreaker 2 1000) [failing_at 0, failing_at 100]"
  have f: "\<forall>c \<in> set [failing_at 0, failing_at 100]. failed (fst (snd c))"
    by (simp add: failing_at_def failed_def)
  have e: "executes (new_CircuitBreaker 2 1000) ([] :: (int \<times> (thrown + unit) \<times> int) list)
             = new_CircuitBreaker 2 1000" by simp
  from breaker_opens_rejects_and_probes
    [where threshold = 2 and timeout = 1000 and calls = "[failing_at 0, failing_at 100]"
       and before = "[]" and b = ?b and now = 1100 and operation = "Inr ''success''"
       and later = 1100]
  have 1: "state ?b = OPEN"
    and 2: "execute ?b 1100 (Inr ''success'') 1100
       = \<lparr>breaker = ?b, outcome = Inl (JsError ''Circuit breaker is OPEN''), invoked_in = None\<rparr>"
    using f by (simp_all add: two_failures)
  from breaker_opens_rejects_and_probes
    [where threshold = 2 and timeout = 1000 and calls = "[failing_at 0, failing_at 100]"
       and before = "[]" and b = ?b and now = 1101 and operation = "Inr ''success''"
       and later = 1101]
  have 3: "invoked_in (execute ?b 1101 (Inr ''success'') 1101) = Some HALF_OPEN"
    by (simp add: two_failures)
  from 1 2 3 show ?thesis by simp
qed



lemma resilientApiCalls_executes:
  "resilientApiCalls b calls
     = executes b (map (\<lambda>c. (fst c, fst (retryApiCall (fst (snd c)) (fst (snd (snd c)))),
                            snd (snd (snd c)))) calls)"
  by (induction b calls rule: resilientApiCalls.induct) (simp_all add: resilientApiCall_def Let_def)

lemma retryApiCall_user_error:
  "retryApiCall always_INVALID_IMAGE_FORMAT no_options
     = (Inl (AppErr (createAppError INVALID_IMAGE_FORMAT None None)), [Invoked 1])"
proof -
  let ?opts = "DEFAULT_RETRY_OPTIONS\<lparr>onRetry := Some ''retryApiCall: console.warn''\<rparr>"
  have b: "1 \<le> num_or (maxRetries ?opts) 3"
    by (simp add: default_maxRetries num_or_def)
  have "\<not> retryable_failure ?opts (always_INVALID_IMAGE_FORMAT 1)"
    by (simp add: retryable_failure_def default_retryableErrors arr_or_def shouldRetryError_def
          code_of_def always_INVALID_IMAGE_FORMAT_def createAppError_def Let_def)
  then have "retry_loop ?opts always_INVALID_IMAGE_FORMAT 1 None
               = (always_INVALID_IMAGE_FORMAT 1, [Invoked 1])"
    by (intro retry_loop_stop [OF b]) simp
  then show ?thesis
    by (simp only: retryApiCall_options api_options_default)
       (simp add: always_INVALID_IMAGE_FORMAT_def)
qed

text \<open>
  Claim C10. Whenever \<^verbatim>\<open>execute\<close> invokes the operation and the operation throws, the
  thrown value is re-thrown unchanged and \<open>failures\<close> grows by exactly one, whatever the
  error is. So five consecutive failing calls of \<^verbatim>\<open>resilientApiCall\<close> on the shared
  \<^verbatim>\<open>apiCircuitBreaker\<close>, of any kind, leave it \<open>OPEN\<close>, and every call that follows
  within 60000 ms of the last failure is rejected with the circuit-open error without
  its operation being invoked.
\<close>

theorem every_failure_counts:
  "(invoked_in (execute b now (Inl e) later) \<noteq> None
      \<longrightarrow> outcome (execute b now (Inl e) later) = Inl e
          \<and> failures (breaker (execute b now (Inl e) later)) = failures b + 1)
   \<and> (length calls = 5
       \<and> (\<forall>c \<in> set calls. failed (fst (retryApiCall (fst (snd c)) (fst (snd (snd c))))))
      \<longrightarrow> state (resilientApiCalls apiCircuitBreaker calls) = OPEN
          \<and> (now' - lastFailureTime (resilientApiCalls apiCircuitBreaker calls) \<le> 60000
              \<longrightarrow> resilientApiCall (resilientApiCalls apiCircuitBreaker calls)
                    now' operation' options' later'
                  = (\<lparr>breaker = resilientApiCalls apiCircuitBreaker calls,
                      outcome = Inl (JsError ''Circuit breaker is OPEN''),
                      invoked_in = None\<rparr>, [])))"
proof (intro conjI impI; (elim conjE)?)
  assume "invoked_in (execute b now (Inl e) later) \<noteq> None"
  then show "outcome (execute b now (Inl e) later) = Inl e"
    and "failures (breaker (execute b now (Inl e) later)) = failures b + 1"
    by (rule execute_failure)+
next
  let ?cs = "map (\<lambda>c. (fst c, fst (retryApiCall (fst (snd c)) (fst (snd (snd c)))),
                        snd (snd (snd c)))) calls"
  let ?b = "resilientApiCalls apiCircuitBreaker calls"
  assume a: "length calls = 5"
    "\<forall>c \<in> set calls. failed (fst (retryApiCall (fst (snd c)) (fst (snd (snd c)))))"
  have s: "settled apiCircuitBreaker" unfolding apiCircuitBreaker_def by (rule settled_new)
  have t: "failureThreshold apiCircuitBreaker = 5" "recoveryTimeout apiCircuitBreaker = 60000"
    by (simp_all add: apiCircuitBreaker_def new_CircuitBreaker_def)
  have "state (executes apiCircuitBreaker ?cs) = OPEN"
    by (rule threshold_failures_open [OF s]) (use a in \<open>simp_all add: t\<close>)
  then show o: "state ?b = OPEN" by (simp only: resilientApiCalls_executes)
  assume w: "now' - lastFailureTime ?b \<le> 60000"
  have "recoveryTimeout ?b = 60000"
    by (simp only: resilientApiCalls_executes executes_config t)
  with w have "now' - lastFailureTime ?b \<le> recoveryTimeout ?b" by simp
  then have r: "execute ?b now' (fst (retryApiCall operation' options')) later'
          = \<lparr>breaker = ?b, outcome = Inl (JsError ''Circuit breaker is OPEN''),
             invoked_in = None\<rparr>"
    by (rule execute_rejects [OF o])
  show "resilientApiCall ?b now' operation' options' later'
          = (\<lparr>breaker = ?b, outcome = Inl (JsError ''Circuit breaker is OPEN''),
              invoked_in = None\<rparr>, [])"
    by (simp add: resilientApiCall_def Let_def r)
qed

lemma five_user_errors:
  "resilientApiCalls apiCircuitBreaker
     [invalid_image_at 0, invalid_image_at 1000, invalid_image_at 2000,
      invalid_image_at 3000, invalid_image_at 4000]
   = \<lparr>failures = 5, lastFailureTime = 4000, state = OPEN,
      failureThreshold = 5, recoveryTimeout = 60000\<rparr>"
  by (simp add: invalid_image_at_def resilientApiCall_def retryApiCall_user_error Let_def
        apiCircuitBreaker_def new_CircuitBreaker_def execute_def admit_def onFailure_def)

theorem every_failure_counts_witness:
  "outcome (execute apiCircuitBreaker 0 (always_INVALID_IMAGE_FORMAT 1) 10)
     = always_INVALID_IMAGE_FORMAT 1
   \<and> failures (breaker (execute apiCircuitBreaker 0 (always_INVALID_IMAGE_FORMAT 1) 10)) = 1
   \<and> state (resilientApiCalls apiCircuitBreaker
        [invalid_image_at 0, invalid_image_at 1000, invalid_image_at 2000,
         invalid_image_at 3000, invalid_image_at 4000]) = OPEN
   \<and> resilientApiCall
        (resilientApiCalls apiCircuitBreaker
           [invalid_image_at 0, invalid_image_at 1000, invalid_image_at 2000,
            invalid_image_at 3000, invalid_image_at 4000])
        5000 twice_NETWORK_ERROR no_options 5000
       = (\<lparr>breaker = resilientApiCalls apiCircuitBreaker
                        [invalid_image_at 0, invalid_image_at 1000, invalid_image_at 2000,
                         invalid_image_at 3000, invalid_image_at 4000],
           outcome = Inl (JsError ''Circuit breaker is OPEN''), invoked_in = None\<rparr>, [])"
proof -
  let ?calls = "[invalid_image_at 0, invalid_image_at 1000, invalid_image_at 2000,
                 invalid_image_at 3000, invalid_image_at 4000]"
  let ?e = "AppErr (createAppError INVALID_IMAGE_FORMAT None None)"
  have i: "always_INVALID_IMAGE_FORMAT 1 = Inl ?e"
    by (simp add: always_INVALID_IMAGE_FORMAT_def)
  note t = every_failure_counts [where b = apiCircuitBreaker and now = 0 and e = ?e
      and later = 10 and calls = ?calls and now' = 5000 and operation' = twice_NETWORK_ERROR
      and options' = no_options and later' = 5000]
  have inv: "invoked_in (execute apiCircuitBreaker 0 (Inl ?e :: thrown + unit) 10) \<noteq> None"
    by (simp add: execute_def admit_def apiCircuitBreaker_def new_CircuitBreaker_def)
  have f: "\<forall>c \<in> set ?calls. failed (fst (retryApiCall (fst (snd c)) (fst (snd (snd c)))))"
    by (simp add: invalid_image_at_def retryApiCall_user_error failed_def)
  have l: "length ?calls = 5" by simp
  have w: "5000 - lastFailureTime (resilientApiCalls apiCircuitBreaker ?calls) \<le> 60000"
    by (simp only: five_user_errors) simp
  from t inv have 1: "outcome (execute apiCircuitBreaker 0 (Inl ?e :: thrown + unit) 10) = Inl ?e
    \<and> failures (breaker (execute apiCircuitBreaker 0 (Inl ?e :: thrown + unit) 10))
        = failures apiCircuitBreaker + 1"
    by blast
  from t l f w have 2: "state (resilientApiCalls apiCircuitBreaker ?calls) = OPEN
    \<and> resilientApiCall (resilientApiCalls apiCircuitBreaker ?calls)
         5000 twice_NETWORK_ERROR no_options 5000
       = (\<lparr>breaker = resilientApiCalls apiCircuitBreaker ?calls,
           outcome = Inl (JsError ''Circuit breaker is OPEN''), invoked_in = None\<rparr>, [])"
    by blast
  have z: "failures apiCircuitBreaker = 0"
    by (simp add: apiCircuitBreaker_def new_CircuitBreaker_def)
  from 1 2 show ?thesis by (simp only: i z) simp
qed

section \<open>Properties of the weight normaliser\<close>

lemma half_kilo_value: "js_div 500 1000 = 1 / 2"
  by code_simp

text \<open>
  Claim C8. For a weight field with a positive value: with unit \<open>kg\<close> or \<open>l\<close>,
  \<^verbatim>\<open>normalize\<close> returns the value and the unit as they are; with unit \<open>g\<close> it returns
  the value divided by 1000 (the division of the language) and unit \<open>kg\<close>; with unit
  \<open>ml\<close> the value divided by 1000 and unit \<open>l\<close>. Every result carries the input's value
  and unit as \<open>originalValue\<close> and \<open>originalUnit\<close>, and its unit is \<open>kg\<close> or \<open>l\<close>.
\<close>

theorem normalize_to_kg_or_l:
  assumes "0 < weight_value w"
  shows "(weight_unit w = ''kg'' \<or> weight_unit w = ''l'' \<longrightarrow>
            normalize w = Inr \<lparr>nw_value = weight_value w, nw_unit = weight_unit w,
                                originalValue = weight_value w, originalUnit = weight_unit w\<rparr>)
       \<and> (weight_unit w = ''g'' \<longrightarrow>
            normalize w = Inr \<lparr>nw_value = js_div (weight_value w) 1000, nw_unit = ''kg'',
                                originalValue = weight_value w, originalUnit = ''g''\<rparr>)
       \<and> (weight_unit w = ''ml'' \<longrightarrow>
            normalize w = Inr \<lparr>nw_value = js_div (weight_value w) 1000, nw_unit = ''l'',
                                originalValue = weight_value w, originalUnit = ''ml''\<rparr>)
       \<and> (\<forall>r. normalize w = Inr r \<longrightarrow>
              (nw_unit r = ''kg'' \<or> nw_unit r = ''l'')
              \<and> originalValue r = weight_value w \<and> originalUnit r = weight_unit w)"
  using assms
  by (auto simp: normalize_def isValidUnit_def Let_def split: if_splits)

theorem normalize_to_kg_or_l_witness:
  "normalize half_kilo
     = Inr \<lparr>nw_value = 1 / 2, nw_unit = ''kg'', originalValue = 500, originalUnit = ''g''\<rparr>"
proof -
  have p: "0 < weight_value half_kilo" by (simp add: half_kilo_def)
  have u: "weight_unit half_kilo = ''g''" by (simp add: half_kilo_def)
  from normalize_to_kg_or_l [OF p] u
  have "normalize half_kilo
          = Inr \<lparr>nw_value = js_div (weight_value half_kilo) 1000, nw_unit = ''kg'',
                 originalValue = weight_value half_kilo, originalUnit = ''g''\<rparr>"
    by blast
  then show ?thesis by (simp add: half_kilo_def half_kilo_value)
qed

lemma conversion_factors_of_the_table:
  "getConversionFactor builtin ''g'' ''kg'' = Inr (Num (lit (1 / 1000)))"
  "getConversionFactor builtin ''ml'' ''l'' = Inr (Num (lit (1 / 1000)))"
  "getConversionFactor builtin ''kg'' ''g'' = Inr (Num 1000)"
  "getConversionFactor builtin ''l'' ''ml'' = Inr (Num 1000)"
  "getConversionFactor builtin ''g'' ''g'' = Inr (Num 1)"
  "getConversionFactor builtin ''kg'' ''kg'' = Inr (Num 1)"
  "getConversionFactor builtin ''ml'' ''ml'' = Inr (Num 1)"
  "getConversionFactor builtin ''l'' ''l'' = Inr (Num 1)"
proof -
  have nz: "js_div 1 1000 \<noteq> 0" by code_simp
  show "getConversionFactor builtin ''g'' ''kg'' = Inr (Num (lit (1 / 1000)))"
    "getConversionFactor builtin ''ml'' ''l'' = Inr (Num (lit (1 / 1000)))"
    using nz
    by (simp_all add: getConversionFactor_def conversions_def row_get_def truthy_def)
       (simp_all add: js_div_def lit_def)
  show "getConversionFactor builtin ''kg'' ''g'' = Inr (Num 1000)"
    "getConversionFactor builtin ''l'' ''ml'' = Inr (Num 1000)"
    "getConversionFactor builtin ''g'' ''g'' = Inr (Num 1)"
    "getConversionFactor builtin ''kg'' ''kg'' = Inr (Num 1)"
    "getConversionFactor builtin ''ml'' ''ml'' = Inr (Num 1)"
    "getConversionFactor builtin ''l'' ''l'' = Inr (Num 1)"
    by (simp_all add: getConversionFactor_def conversions_def row_get_def truthy_def)
qed

text \<open>
  A pair of names neither of which is a member of \<^verbatim>\<open>Object.prototype\<close> has a factor
  exactly when the table has an entry for it, and is rejected otherwise.
\<close>

lemma getConversionFactor_plain_names:
  assumes "fromUnit \<notin> set Object_prototype" and "toUnit \<notin> set Object_prototype"
  shows "(\<exists>v. getConversionFactor builtin fromUnit toUnit = Inr v)
           = ((fromUnit, toUnit) \<in> set [(''g'', ''kg''), (''g'', ''g''), (''kg'', ''kg''),
                 (''kg'', ''g''), (''ml'', ''l''), (''ml'', ''ml''), (''l'', ''l''),
                 (''l'', ''ml'')])"
    and "(\<forall>v. getConversionFactor builtin fromUnit toUnit \<noteq> Inr v)
           \<longrightarrow> getConversionFactor builtin fromUnit toUnit = Inl (CannotConvert fromUnit toUnit)"
proof -
  have nz: "js_div 1 1000 \<noteq> 0" by code_simp
  show "(\<exists>v. getConversionFactor builtin fromUnit toUnit = Inr v)
           = ((fromUnit, toUnit) \<in> set [(''g'', ''kg''), (''g'', ''g''), (''kg'', ''kg''),
                 (''kg'', ''g''), (''ml'', ''l''), (''ml'', ''ml''), (''l'', ''l''),
                 (''l'', ''ml'')])"
    using assms nz
    by (auto simp: getConversionFactor_def conversions_def row_get_def truthy_def
          split: option.splits if_splits)
  show "(\<forall>v. getConversionFactor builtin fromUnit toUnit \<noteq> Inr v)
           \<longrightarrow> getConversionFactor builtin fromUnit toUnit = Inl (CannotConvert fromUnit toUnit)"
    using assms
    by (auto simp: getConversionFactor_def conversions_def row_get_def truthy_def
          split: option.splits if_splits)
qed

lemma cross_domain_rejected:
  "getConversionFactor builtin ''g'' ''l'' = Inl (CannotConvert ''g'' ''l'')"
  "getConversionFactor builtin ''g'' ''ml'' = Inl (CannotConvert ''g'' ''ml'')"
  "getConversionFactor builtin ''kg'' ''l'' = Inl (CannotConvert ''kg'' ''l'')"
  "getConversionFactor builtin ''kg'' ''ml'' = Inl (CannotConvert ''kg'' ''ml'')"
  "getConversionFactor builtin ''ml'' ''g'' = Inl (CannotConvert ''ml'' ''g'')"
  "getConversionFactor builtin ''ml'' ''kg'' = Inl (CannotConvert ''ml'' ''kg'')"
  "getConversionFactor builtin ''l'' ''g'' = Inl (CannotConvert ''l'' ''g'')"
  "getConversionFactor builtin ''l'' ''kg'' = Inl (CannotConvert ''l'' ''kg'')"
  by (simp_all add: getConversionFactor_def conversions_def row_get_def truthy_def
        Object_prototype_def)

text \<open>
  Claim C9. \<^verbatim>\<open>getConversionFactor\<close> should fail for every pair without an entry in
  its table. It gives the factors of the table (\<open>conversion_factors_of_the_table\<close>) and
  rejects the pairs across the domains (\<open>cross_domain_rejected\<close>), but a target name that
  \<^verbatim>\<open>Object.prototype\<close> defines is found by the property access on the row: for \<open>g\<close> and
  \<open>toString\<close>, a pair that the table does not have, the call does not fail and returns
  the inherited function.
\<close>

theorem inherited_member_is_not_rejected:
  "getConversionFactor builtin ''g'' ''toString'' = Inr (Inherited ''toString'')
   \<and> map_of conversions ''g'' = Some [(''kg'', js_div 1 1000), (''g'', 1)]
   \<and> map_of [(''kg'', js_div 1 1000), (''g'', 1 :: number)] ''toString'' = None"
  by (simp add: getConversionFactor_def conversions_def row_get_def truthy_def
        Object_prototype_def)

section \<open>Properties of the unit price\<close>






























section \<open>Properties of the validation\<close>

lemma POST_validation_low_price_confidence:
  assumes "price d = Some p" and "weight d = Some w" and "product d = Some pr"
    and "price_confidence p < minConfidence"
  shows "\<exists>body. POST_validation d = Inr (422, Failure body) \<and> api_code body = NO_PRICE_DETECTED"
  using assms
  by (simp add: POST_validation_def Let_def error_body_def createAppError_code)

lemma validateExtractedData_price:
  "(\<exists>e. validateExtractedData d = Some e \<and> code e = NO_PRICE_DETECTED)
     = (case price d of None \<Rightarrow> True | Some p \<Rightarrow> price_value p \<le> 0 \<or> price_currency p = [])"
  by (auto simp: validateExtractedData_def createAppError_code split: option.splits)

lemma retryImageAnalysis_not_retryable:
  assumes "api_code body \<notin> set [NETWORK_ERROR, API_RATE_LIMIT, API_ERROR]"
  shows "retryImageAnalysis (\<lambda>k. Inr (Failure body)) extractor_options
           = (Inl (AppErr (analysisError extractor_options body)), [Invoked 1])"
proof -
  define opts where "opts = spread DEFAULT_RETRY_OPTIONS
          (spread
             (spread DEFAULT_RETRY_OPTIONS
                (no_options
                   \<lparr>retryableErrors := Some [NETWORK_ERROR, API_RATE_LIMIT, API_ERROR],
                    onRetry := Some ''retryApiCall: console.warn''\<rparr>))
             (analysisOptions extractor_options))"
  define operation where
    "operation = (\<lambda>k :: int. analysisCall extractor_options (Inr (Failure body)))"
  have f: "maxRetries opts = Some 3"
      "retryableErrors opts = Some [NETWORK_ERROR, API_RATE_LIMIT, API_ERROR]"
    by (simp_all add: opts_def analysisOptions_extractor spread_def override_def)
  have b: "1 \<le> num_or (maxRetries opts) 3" by (simp add: f num_or_def)
  have o: "operation 1 = Inl (AppErr (analysisError extractor_options body))"
    by (simp add: operation_def analysisCall_def)
  have "\<not> retryable_failure opts (operation 1)"
    using assms
    by (simp add: o retryable_failure_def f arr_or_def shouldRetryError_def code_of_def
          analysisError_def)
  then have "retry_loop opts operation 1 None = (operation 1, [Invoked 1])"
    by (intro retry_loop_stop [OF b]) simp
  then show ?thesis
    unfolding retryImageAnalysis_def retryApiCall_options opts_def [symmetric]
      operation_def [symmetric]
    by (simp only: o)
qed

lemma extractData_price_failure:
  assumes "file_size upload \<le> 10 * 1024 * 1024"
    and "file_type upload \<in> set [''image/jpeg'', ''image/png'', ''image/webp'']"
    and "api_code body = NO_PRICE_DETECTED"
  shows "\<exists>e. extractData upload (\<lambda>k. Inr (Failure body)) = Inl (AppErr e)
              \<and> code e = NO_PRICE_DETECTED"
proof -
  have n: "api_code body \<notin> set [NETWORK_ERROR, API_RATE_LIMIT, API_ERROR]"
    by (simp add: assms(3))
  have "extractData upload (\<lambda>k. Inr (Failure body))
          = Inl (AppErr (analysisError extractor_options body))"
    using assms(1,2)
    by (simp add: extractData_def Let_def retryImageAnalysis_not_retryable [OF n])
  moreover have "code (analysisError extractor_options body) = NO_PRICE_DETECTED"
    by (simp add: analysisError_def assms(3))
  ultimately show ?thesis by blast
qed

lemma doubtful_confidence: "price_confidence doubtful_price < minConfidence"
  unfolding doubtful_price_def minConfidence_def by simp code_simp

lemma doubtful_value: "0 < price_value doubtful_price"
  unfolding doubtful_price_def by simp code_simp

text \<open>
  Claim C2, as amended. When the price of an extraction result has a confidence below
  the threshold 0.3, the validation of the analysis route fails with
  \<open>NO_PRICE_DETECTED\<close> (status 422) whatever the price's value, and the extraction flow
  of the user interface, which receives that response, hands \<open>NO_PRICE_DETECTED\<close> to
  its caller. \<^verbatim>\<open>validateExtractedData\<close> does not look at the confidence: it answers
  \<open>NO_PRICE_DETECTED\<close> exactly when the price is missing, its value is not positive or
  its currency is empty.
\<close>

theorem low_confidence_price_is_rejected_by_the_route:
  "(price d = Some p \<and> weight d = Some w \<and> product d = Some pr
      \<and> price_confidence p < minConfidence \<longrightarrow>
        (\<exists>body. POST_validation d = Inr (422, Failure body)
                 \<and> api_code body = NO_PRICE_DETECTED))
   \<and> (file_size upload \<le> 10 * 1024 * 1024
       \<and> file_type upload \<in> set [''image/jpeg'', ''image/png'', ''image/webp'']
       \<and> api_code body' = NO_PRICE_DETECTED \<longrightarrow>
        (\<exists>e. extractData upload (\<lambda>k. Inr (Failure body')) = Inl (AppErr e)
              \<and> code e = NO_PRICE_DETECTED))
   \<and> ((\<exists>e. validateExtractedData d' = Some e \<and> code e = NO_PRICE_DETECTED)
        = (case price d' of
             None \<Rightarrow> True
           | Some p' \<Rightarrow> price_value p' \<le> 0 \<or> price_currency p' = []))"
proof (intro conjI impI; (elim conjE)?)
  assume "price d = Some p" "weight d = Some w" "product d = Some pr"
    "price_confidence p < minConfidence"
  then show "\<exists>body. POST_validation d = Inr (422, Failure body)
                 \<and> api_code body = NO_PRICE_DETECTED"
    by (rule POST_validation_low_price_confidence)
next
  assume "file_size upload \<le> 10 * 1024 * 1024"
    "file_type upload \<in> set [''image/jpeg'', ''image/png'', ''image/webp'']"
    "api_code body' = NO_PRICE_DETECTED"
  then show "\<exists>e. extractData upload (\<lambda>k. Inr (Failure body')) = Inl (AppErr e)
              \<and> code e = NO_PRICE_DETECTED"
    by (rule extractData_price_failure)
next
  show "(\<exists>e. validateExtractedData d' = Some e \<and> code e = NO_PRICE_DETECTED)
        = (case price d' of
             None \<Rightarrow> True
           | Some p' \<Rightarrow> price_value p' \<le> 0 \<or> price_currency p' = [])"
    by (rule validateExtractedData_price)
qed

theorem low_confidence_price_is_rejected_by_the_route_witness:
  "price_confidence doubtful_price < minConfidence
   \<and> (\<exists>body. POST_validation doubtful_data = Inr (422, Failure body)
              \<and> api_code body = NO_PRICE_DETECTED)
   \<and> (\<exists>e. extractData photo (\<lambda>k. Inr (Failure price_failure)) = Inl (AppErr e)
           \<and> code e = NO_PRICE_DETECTED)"
proof -
  note t = low_confidence_price_is_rejected_by_the_route
    [where d = doubtful_data and p = doubtful_price and w = half_kilo
       and pr = "\<lparr>product_name = ''Leche'', product_brand = ''Marca'',
                  product_confidence = lit (9 / 10)\<rparr>"
       and upload = photo and body' = price_failure]
  have d: "price doubtful_data = Some doubtful_price" "weight doubtful_data = Some half_kilo"
    "product doubtful_data = Some \<lparr>product_name = ''Leche'', product_brand = ''Marca'',
                                    product_confidence = lit (9 / 10)\<rparr>"
    by (simp_all add: doubtful_data_def)
  have f: "file_size photo \<le> 10 * 1024 * 1024"
    "file_type photo \<in> set [''image/jpeg'', ''image/png'', ''image/webp'']"
    by (simp_all add: photo_def)
  have c: "api_code price_failure = NO_PRICE_DETECTED"
    by (simp add: price_failure_def error_body_def createAppError_code)
  from t d doubtful_confidence
  have 1: "\<exists>body. POST_validation doubtful_data = Inr (422, Failure body)
              \<and> api_code body = NO_PRICE_DETECTED"
    by blast
  from t f c
  have 2: "\<exists>e. extractData photo (\<lambda>k. Inr (Failure price_failure)) = Inl (AppErr e)
           \<and> code e = NO_PRICE_DETECTED"
    by blast
  from doubtful_confidence 1 2 show ?thesis by blast
qed

text \<open>
  Claim C2 as stated fails for \<^verbatim>\<open>validateExtractedData\<close>: it accepts data whose price
  has the confidence 0.2.
\<close>

theorem validateExtractedData_ignores_confidence_counterexample:
  "price doubtful_data = Some doubtful_price
   \<and> price_confidence doubtful_price < minConfidence
   \<and> validateExtractedData doubtful_data = None"
proof -
  have "validateExtractedData doubtful_data = None"
    using doubtful_value
    by (simp add: validateExtractedData_def doubtful_data_def half_kilo_def trim_def
          whitespace_def)
       (simp add: doubtful_price_def)
  then show ?thesis
    using doubtful_confidence by (simp add: doubtful_data_def)
qed

end
